theory Spec2Isabelle
  imports Complex_Main "HOL-Library.Code_Target_Nat"
begin

section \<open>Python values\<close>

text \<open>
  A Python \<open>str\<close> is a sequence of Unicode code points, so a text is a list of code
  point numbers: \<open>len\<close>, \<open>find\<close> and slicing count code points. \<open>str\<close> turns an
  ASCII literal into such a text.
\<close>

type_synonym pystr = "nat list"

definition str :: "string \<Rightarrow> pystr" where
  "str s = map of_char s"

text \<open>
  A Python \<open>float\<close> is an IEEE double. Its values are kept as the rational they denote,
  the two infinities, or NaN. Every operation that rounds (conversion from \<open>int\<close> or
  \<open>str\<close>, arithmetic, formatting) belongs to the interpreter and is a field of
  \<open>pylib\<close> below, so nothing here fixes how doubles round.
\<close>

datatype pyfloat = Finite rat | PosInf | NegInf | NaN

text \<open>The values that \<open>json.loads\<close> produces and that the services pass around.\<close>

datatype pyval =
    PNone
  | PBool bool
  | PInt int
  | PFloat pyfloat
  | PStr pystr
  | PList "pyval list"
  | PDict "(pystr \<times> pyval) list"

text \<open>
  A \<open>dict\<close> with \<open>str\<close> keys is an association list in insertion order; \<open>dict_get\<close> is
  \<open>d.get(k, default)\<close> and \<open>dict_set\<close> is \<open>d[k] = v\<close> (an existing key keeps its place).
\<close>

type_synonym pydict = "(pystr \<times> pyval) list"

definition dict_get :: "pydict \<Rightarrow> pystr \<Rightarrow> pyval \<Rightarrow> pyval" where
  "dict_get d k dflt = (case map_of d k of Some v \<Rightarrow> v | None \<Rightarrow> dflt)"

fun dict_set :: "pydict \<Rightarrow> pystr \<Rightarrow> pyval \<Rightarrow> pydict" where
  "dict_set [] k v = [(k, v)]"
| "dict_set ((k', v') # d) k v = (if k' = k then (k, v) # d else (k', v') # dict_set d k v)"

definition dict_has :: "pydict \<Rightarrow> pystr \<Rightarrow> bool" where
  "dict_has d k = (map_of d k \<noteq> None)"

subsection \<open>Exceptions\<close>

text \<open>
  An exception is its class and its message (\<open>str(e)\<close>). \<open>OtherException\<close> stands for
  any further subclass of \<open>Exception\<close> a library or the remote service raises.
\<close>

datatype exn_class =
    AttributeError | TypeError | ValueError | JSONDecodeError | UnicodeEncodeError
  | OverflowError | ZeroDivisionError | RecursionError | SqliteError | OtherException

datatype exn = Exn exn_class pystr

fun exn_str :: "exn \<Rightarrow> pystr" where
  "exn_str (Exn c m) = m"

fun exn_cls :: "exn \<Rightarrow> exn_class" where
  "exn_cls (Exn c m) = c"

text \<open>\<open>except (json.JSONDecodeError, ValueError)\<close> catches \<open>ValueError\<close> and its subclasses.\<close>

definition is_ValueError :: "exn_class \<Rightarrow> bool" where
  "is_ValueError c = (c = ValueError \<or> c = JSONDecodeError \<or> c = UnicodeEncodeError)"

definition quoted :: "pystr \<Rightarrow> pystr" where
  "quoted s = [39] @ s @ [39]"

definition bind_exn :: "exn + 'a \<Rightarrow> ('a \<Rightarrow> exn + 'b) \<Rightarrow> exn + 'b" where
  "bind_exn m f = (case m of Inl e \<Rightarrow> Inl e | Inr x \<Rightarrow> f x)"

fun type_name :: "pyval \<Rightarrow> pystr" where
  "type_name PNone = str ''NoneType''"
| "type_name (PBool b) = str ''bool''"
| "type_name (PInt n) = str ''int''"
| "type_name (PFloat f) = str ''float''"
| "type_name (PStr s) = str ''str''"
| "type_name (PList xs) = str ''list''"
| "type_name (PDict d) = str ''dict''"

subsection \<open>The interpreter and its libraries\<close>

text \<open>
  What the services call but do not define: the \<open>json\<close> module, the numeric
  conversions behind \<open>float()\<close>, float arithmetic, comparison and formatting,
  \<open>repr\<close> of a \<open>str\<close>, and the
  conversions SQLite applies to a value stored in a column of another type. The services
  are modelled over any such library \<open>L\<close>; \<open>Inl\<close> is a raised exception.
\<close>

record pylib =
  json_loads :: "pystr \<Rightarrow> exn + pyval"
  json_dumps :: "pyval \<Rightarrow> exn + pystr"
  float_of_int :: "int \<Rightarrow> exn + pyfloat"
  float_of_str :: "pystr \<Rightarrow> exn + pyfloat"
  float_add :: "pyfloat \<Rightarrow> pyfloat \<Rightarrow> pyfloat"
  float_sub :: "pyfloat \<Rightarrow> pyfloat \<Rightarrow> pyfloat"
  float_truediv :: "pyfloat \<Rightarrow> pyfloat \<Rightarrow> exn + pyfloat"
  float_lt :: "pyfloat \<Rightarrow> pyfloat \<Rightarrow> bool"
  float_repr :: "pyfloat \<Rightarrow> pystr"
  float_format_2f :: "pyfloat \<Rightarrow> pystr"
  str_repr :: "pystr \<Rightarrow> pystr"
  sqlite_real_of_int :: "int \<Rightarrow> pyfloat"
  sqlite_real_of_text :: "pystr \<Rightarrow> pyfloat option"
  sqlite_text_of_real :: "pyfloat \<Rightarrow> pystr"

text \<open>
  The builtin \<open>float(x)\<close>: a float is returned as it is, an \<open>int\<close> (and a \<open>bool\<close>, which
  is an \<open>int\<close>) is converted and may overflow, a \<open>str\<close> is parsed and may be rejected, and
  \<open>None\<close>, a list or a dict raise \<open>TypeError\<close>.
\<close>

definition py_float :: "pylib \<Rightarrow> pyval \<Rightarrow> exn + pyfloat" where
  "py_float L v =
     (case v of
        PFloat f \<Rightarrow> Inr f
      | PInt n \<Rightarrow> float_of_int L n
      | PBool b \<Rightarrow> float_of_int L (if b then 1 else 0)
      | PStr s \<Rightarrow> float_of_str L s
      | _ \<Rightarrow> Inl (Exn TypeError
                 (str ''float() argument must be a string or a real number, not '' @
                  quoted (type_name v))))"

subsection \<open>String methods\<close>

text \<open>\<open>str.isspace\<close> of one code point, as \<open>str.strip()\<close> uses it.\<close>

definition is_space :: "nat \<Rightarrow> bool" where
  "is_space c =
     ((9 \<le> c \<and> c \<le> 13) \<or> (28 \<le> c \<and> c \<le> 32) \<or> c = 133 \<or> c = 160 \<or> c = 5760 \<or>
      (8192 \<le> c \<and> c \<le> 8202) \<or> c = 8232 \<or> c = 8233 \<or> c = 8239 \<or> c = 8287 \<or>
      c = 12288)"

definition strip :: "pystr \<Rightarrow> pystr" where
  "strip s = rev (dropWhile is_space (rev (dropWhile is_space s)))"

text \<open>\<open>s.find(c)\<close> and \<open>s.rfind(c)\<close> for a one-character \<open>c\<close>: an index, or \<open>-1\<close>.\<close>

fun find_from :: "nat \<Rightarrow> int \<Rightarrow> pystr \<Rightarrow> int" where
  "find_from c i [] = -1"
| "find_from c i (x # xs) = (if x = c then i else find_from c (i + 1) xs)"

definition py_find :: "pystr \<Rightarrow> nat \<Rightarrow> int" where
  "py_find s c = find_from c 0 s"

definition py_rfind :: "pystr \<Rightarrow> nat \<Rightarrow> int" where
  "py_rfind s c =
     (let k = find_from c 0 (rev s) in if k < 0 then -1 else int (length s) - 1 - k)"

text \<open>
  \<open>xs[a:b]\<close>: a negative bound counts from the end, and both bounds are clamped to the
  sequence.
\<close>

definition slice_bound :: "nat \<Rightarrow> int \<Rightarrow> nat" where
  "slice_bound n i = (if i < 0 then nat (max 0 (i + int n)) else min (nat i) n)"

definition py_slice :: "'a list \<Rightarrow> int \<Rightarrow> int \<Rightarrow> 'a list" where
  "py_slice xs a b =
     (let lo = slice_bound (length xs) a; hi = slice_bound (length xs) b
      in take (hi - lo) (drop lo xs))"

definition lbrace :: nat where "lbrace = 123"
definition rbrace :: nat where "rbrace = 125"

section \<open>main.py: ReasoningSystem\<close>

text \<open>The keys of an analysis, and the texts with letters outside ASCII.\<close>

definition k_tendencia :: pystr where "k_tendencia = str ''tendencia''"
definition k_probabilidad_fuga :: pystr where "k_probabilidad_fuga = str ''probabilidad_fuga''"
definition k_recomendacion :: pystr where "k_recomendacion = str ''recomendacion''"
definition k_detalles :: pystr where "k_detalles = str ''detalles''"
definition k_periodo :: pystr where "k_periodo = str ''periodo''"
definition k_respuesta_original :: pystr where "k_respuesta_original = str ''respuesta_original''"

definition analisis_incompleto :: pystr where
  "analisis_incompleto = str ''an'' @ [225] @ str ''lisis incompleto''"

definition error_en_analisis :: pystr where
  "error_en_analisis = str ''Error en an'' @ [225] @ str ''lisis: ''"

text \<open>
  \<open>_create_fallback_analysis(text)\<close>. \<open>text[:500]\<close> raises \<open>TypeError\<close> when \<open>text\<close> is
  \<open>None\<close>, which is what \<open>response.text\<close> is for a response without text.
\<close>

definition create_fallback_analysis :: "pystr option \<Rightarrow> exn + pydict" where
  "create_fallback_analysis text =
     (case text of
        None \<Rightarrow> Inl (Exn TypeError (quoted (str ''NoneType'') @ str '' object is not subscriptable''))
      | Some t \<Rightarrow>
          Inr [(k_tendencia, PStr analisis_incompleto),
               (k_probabilidad_fuga, PInt 0),
               (k_recomendacion, PStr (str ''Se recomienda revisar manualmente los datos'')),
               (k_detalles, PDict [(k_respuesta_original, PStr (py_slice t 0 500 @ str ''...''))])])"

text \<open>
  Lines 102-110: the analysis built from the parsed \<open>result\<close>. \<open>result.get\<close> raises
  \<open>AttributeError\<close> unless \<open>result\<close> is a dict; the four entries are evaluated in order,
  so \<open>float(...)\<close> is the only other place that raises.
\<close>

definition format_result :: "pylib \<Rightarrow> pyval \<Rightarrow> exn + pydict" where
  "format_result L result =
     (case result of
        PDict r \<Rightarrow>
          bind_exn (py_float L (dict_get r k_probabilidad_fuga (PInt 0)))
            (\<lambda>p. Inr [(k_tendencia, dict_get r k_tendencia (PStr (str ''desconocida''))),
                       (k_probabilidad_fuga, PFloat p),
                       (k_recomendacion,
                          dict_get r k_recomendacion (PStr (str ''No hay recomendaciones disponibles''))),
                       (k_detalles, dict_get r k_detalles (PDict []))])
      | _ \<Rightarrow> Inl (Exn AttributeError
                 (quoted (type_name result) @ str '' object has no attribute '' @
                  quoted (str ''get''))))"

text \<open>
  Lines 93-113, the body of the inner \<open>try\<close>, given \<open>response.text\<close>: trim, locate the
  first \<open>{\<close> and the last \<open>}\<close>, parse the slice between them, or fall back on the
  trimmed text when there is no such pair.
\<close>

definition json_candidate :: "pystr \<Rightarrow> pystr option" where
  "json_candidate response_text =
     (let json_start = py_find response_text lbrace;
          json_end = py_rfind response_text rbrace + 1
      in if json_start \<ge> 0 \<and> json_end > json_start
         then Some (py_slice response_text json_start json_end)
         else None)"

definition parse_response :: "pylib \<Rightarrow> pystr option \<Rightarrow> exn + pydict" where
  "parse_response L text =
     (case text of
        None \<Rightarrow> Inl (Exn AttributeError
                  (quoted (str ''NoneType'') @ str '' object has no attribute '' @
                   quoted (str ''strip'')))
      | Some t \<Rightarrow>
          (let response_text = strip t in
           case json_candidate response_text of
             Some json_text \<Rightarrow> bind_exn (json_loads L json_text) (format_result L)
           | None \<Rightarrow> create_fallback_analysis (Some response_text)))"

text \<open>
  Lines 92-116: the inner \<open>try\<close> with its handler. Any exception of the body is answered
  with the fallback analysis of the untrimmed \<open>response.text\<close>; the handler itself raises
  when that text is \<open>None\<close>.
\<close>

definition interpret_response :: "pylib \<Rightarrow> pystr option \<Rightarrow> exn + pydict" where
  "interpret_response L text =
     (case parse_response L text of
        Inr analisis \<Rightarrow> Inr analisis
      | Inl e \<Rightarrow> create_fallback_analysis text)"

text \<open>The result of the outer handler (lines 118-125).\<close>

definition error_analysis :: "exn \<Rightarrow> pydict" where
  "error_analysis e =
     [(k_tendencia, PStr (str ''error'')),
      (k_probabilidad_fuga, PInt 0),
      (k_recomendacion, PStr (error_en_analisis @ exn_str e)),
      (k_detalles, PDict [(str ''error'', PStr (exn_str e))])]"

subsection \<open>The prompt and the call\<close>

text \<open>\<open>_create_prompt_for_flow_analysis(data, num_cycles)\<close>: the template around \<open>data\<close>.\<close>

definition prompt_head :: pystr where
  \<open>prompt_head =
     str ''\<newline>'' @
     str ''        # An'' @
     [225] @
     str ''lisis de Datos de Flujo de Agua\<newline>'' @
     str ''        \<newline>'' @
     str ''        Analiza los siguientes datos de flujo de agua y proporciona un'' @
     str ''a evaluaci'' @
     [243] @
     str ''n detallada.\<newline>'' @
     str ''        \<newline>'' @
     str ''        ## Datos\<newline>'' @
     str ''        ```\<newline>'' @
     str ''        ''\<close>

definition prompt_tail :: pystr where
  \<open>prompt_tail =
     str ''\<newline>'' @
     str ''        ```\<newline>'' @
     str ''        \<newline>'' @
     str ''        ## Instrucciones\<newline>'' @
     str ''        Realiza un an'' @
     [225] @
     str ''lisis completo siguiendo estos pasos:\<newline>'' @
     str ''        \<newline>'' @
     str ''        1. Identifica patrones en los datos de flujo (estables, ascend'' @
     str ''entes, descendentes, fluctuantes)\<newline>'' @
     str ''        2. Detecta anomal'' @
     [237] @
     str ''as que puedan indicar fugas o problemas\<newline>'' @
     str ''        3. Eval'' @
     [250] @
     str ''a la probabilidad de una fuga basada en los patrones\<newline>'' @
     str ''        4. Proporciona recomendaciones espec'' @
     [237] @
     str ''ficas\<newline>'' @
     str ''        \<newline>'' @
     str ''        ## Formato de Respuesta\<newline>'' @
     str ''        Tu respuesta DEBE estar en formato JSON con exactamente esta e'' @
     str ''structura:\<newline>'' @
     str ''        \<newline>'' @
     str ''        {\<newline>'' @
     str ''            "tendencia": "estable|creciente|decreciente|fluctuante",\<newline>'' @
     str ''            "probabilidad_fuga": valor_num'' @
     [233] @
     str ''rico_entre_0_y_100,\<newline>'' @
     str ''            "recomendacion": "texto con acci'' @
     [243] @
     str ''n recomendada",\<newline>'' @
     str ''            "detalles": {\<newline>'' @
     str ''                "patrones_identificados": ["lista", "de", "patrones"],'' @
     str ''\<newline>'' @
     str ''                "anomalias": ["lista", "de", "anomal'' @
     [237] @
     str ''as"],\<newline>'' @
     str ''                "explicacion": "explicaci'' @
     [243] @
     str ''n del an'' @
     [225] @
     str ''lisis"\<newline>'' @
     str ''            }\<newline>'' @
     str ''        }\<newline>'' @
     str ''        ''\<close>

definition create_prompt_for_flow_analysis :: "pystr \<Rightarrow> pystr" where
  "create_prompt_for_flow_analysis data = prompt_head @ data @ prompt_tail"

text \<open>
  \<open>self.client.models.generate_content(model, contents, config)\<close> followed by
  \<open>response.text\<close>: the remote service maps the prompt to a text, to no text, or raises.
\<close>

type_synonym genai_client = "pystr \<Rightarrow> exn + pystr option"

definition no_client_response :: pydict where
  "no_client_response =
     [(str ''respuesta_final'', PStr (str ''No se puede analizar: falta la API key de Gemini'')),
      (str ''razonamiento'',
         PList [PDict [(str ''ciclo'', PInt 1),
                       (str ''an'' @ [225] @ str ''lisis'', PStr (str ''No configurado''))]])]"

text \<open>
  \<open>generate_reasoned_response(query)\<close>: without a client the fixed answer above;
  otherwise the outer \<open>try\<close> around the call and the interpretation of its text.
\<close>

definition generate_reasoned_response :: "pylib \<Rightarrow> genai_client option \<Rightarrow> pystr \<Rightarrow> pydict" where
  "generate_reasoned_response L client query =
     (case client of
        None \<Rightarrow> no_client_response
      | Some generate_content \<Rightarrow>
          (case bind_exn (generate_content (create_prompt_for_flow_analysis query))
                  (interpret_response L) of
             Inr analisis \<Rightarrow> analisis
           | Inl e \<Rightarrow> error_analysis e))"

text \<open>An analysis is well formed when it has the four fields.\<close>

definition well_formed_analysis :: "pydict \<Rightarrow> bool" where
  "well_formed_analysis d =
     (dict_has d k_tendencia \<and> dict_has d k_probabilidad_fuga \<and>
      dict_has d k_recomendacion \<and> dict_has d k_detalles)"

section \<open>main.py: DatabaseManager\<close>

subsection \<open>SQLite values, binding and column affinity\<close>

datatype sqlval = SNull | SInt int | SReal pyfloat | SText pystr

text \<open>\<open>str(n)\<close> for an \<open>int\<close>.\<close>

function nat_str :: "nat \<Rightarrow> pystr" where
  "nat_str n = (if n < 10 then [48 + n] else nat_str (n div 10) @ [48 + n mod 10])"
  by pat_completeness auto
termination
  by (relation "measure id") auto

definition int_str :: "int \<Rightarrow> pystr" where
  "int_str i = (if i < 0 then [45] @ nat_str (nat (- i)) else nat_str (nat i))"

definition has_surrogate :: "pystr \<Rightarrow> bool" where
  "has_surrogate s = list_ex (\<lambda>c. 55296 \<le> c \<and> c \<le> 57343) s"

text \<open>
  How the \<open>sqlite3\<close> module binds a Python value to a \<open>?\<close>: \<open>None\<close> is NULL, a \<open>bool\<close> or
  an \<open>int\<close> is an INTEGER when it fits 64 bits, a \<open>float\<close> is a REAL (NaN is stored as
  NULL), a \<open>str\<close> is TEXT when it encodes as UTF-8, and a list or a dict is refused.
\<close>

definition sqlite_bind :: "pyval \<Rightarrow> exn + sqlval" where
  "sqlite_bind v =
     (case v of
        PNone \<Rightarrow> Inr SNull
      | PBool b \<Rightarrow> Inr (SInt (if b then 1 else 0))
      | PInt n \<Rightarrow>
          (if - (2 ^ 63) \<le> n \<and> n < 2 ^ 63 then Inr (SInt n)
           else Inl (Exn OverflowError (str ''Python int too large to convert to SQLite INTEGER'')))
      | PFloat f \<Rightarrow> Inr (if f = NaN then SNull else SReal f)
      | PStr s \<Rightarrow>
          (if has_surrogate s
           then Inl (Exn UnicodeEncodeError (str ''surrogates not allowed''))
           else Inr (SText s))
      | _ \<Rightarrow> Inl (Exn SqliteError
                 (str ''Error binding parameter: type '' @ quoted (type_name v) @
                  str '' is not supported'')))"

text \<open>
  A TEXT column stores a number as its text; a REAL column stores an integer, and a
  text that reads as a number, as a real. Anything else is stored as it is.
\<close>

definition text_affinity :: "pylib \<Rightarrow> sqlval \<Rightarrow> sqlval" where
  "text_affinity L v =
     (case v of
        SInt n \<Rightarrow> SText (int_str n)
      | SReal f \<Rightarrow> SText (sqlite_text_of_real L f)
      | _ \<Rightarrow> v)"

definition real_affinity :: "pylib \<Rightarrow> sqlval \<Rightarrow> sqlval" where
  "real_affinity L v =
     (case v of
        SInt n \<Rightarrow> SReal (sqlite_real_of_int L n)
      | SText s \<Rightarrow> (case sqlite_real_of_text L s of Some f \<Rightarrow> SReal f | None \<Rightarrow> v)
      | _ \<Rightarrow> v)"

definition not_null :: "pystr \<Rightarrow> sqlval \<Rightarrow> exn + sqlval" where
  "not_null column v =
     (if v = SNull
      then Inl (Exn SqliteError (str ''NOT NULL constraint failed: '' @ column))
      else Inr v)"

text \<open>What a fetched column is in Python.\<close>

fun py_of_sql :: "sqlval \<Rightarrow> pyval" where
  "py_of_sql SNull = PNone"
| "py_of_sql (SInt n) = PInt n"
| "py_of_sql (SReal f) = PFloat f"
| "py_of_sql (SText s) = PStr s"

text \<open>
  \<open>ORDER BY column DESC\<close> on a TEXT column compares texts code point by code point.
  SQL leaves the order of rows with equal keys open; here they stay in table order.
\<close>

fun str_lt :: "pystr \<Rightarrow> pystr \<Rightarrow> bool" where
  "str_lt [] [] = False"
| "str_lt [] (y # ys) = True"
| "str_lt (x # xs) [] = False"
| "str_lt (x # xs) (y # ys) = (x < y \<or> (x = y \<and> str_lt xs ys))"

fun insert_desc :: "('a \<Rightarrow> pystr) \<Rightarrow> 'a \<Rightarrow> 'a list \<Rightarrow> 'a list" where
  "insert_desc key x [] = [x]"
| "insert_desc key x (y # ys) =
     (if str_lt (key y) (key x) then x # y # ys else y # insert_desc key x ys)"

definition order_by_desc :: "('a \<Rightarrow> pystr) \<Rightarrow> 'a list \<Rightarrow> 'a list" where
  "order_by_desc key rows = foldl (\<lambda>acc x. insert_desc key x acc) [] rows"

text \<open>\<open>LIMIT ? OFFSET ?\<close>: a negative limit is no limit, a negative offset is none.\<close>

definition sql_limit :: "int \<Rightarrow> int \<Rightarrow> 'a list \<Rightarrow> 'a list" where
  "sql_limit limite offset rows =
     (let rest = drop (nat offset) rows
      in if limite < 0 then rest else take (nat limite) rest)"

text \<open>\<open>INTEGER PRIMARY KEY AUTOINCREMENT\<close>: one more than the largest id so far.\<close>

definition next_id :: "int list \<Rightarrow> int" where
  "next_id ids = foldl max 0 ids + 1"

subsection \<open>Tables and the trigger state\<close>

text \<open>
  A row of \<open>flujo_registros\<close> (the arguments of \<open>guardar_flujo\<close> are a \<open>float\<close> and an
  optional \<open>str\<close>), and a row of \<open>tendencias\<close>, whose columns hold whatever the analysis
  gave after binding and affinity.
\<close>

record registro =
  reg_id :: int
  reg_flujo :: pyfloat
  reg_timestamp :: pystr
  reg_analisis :: "pystr option"

record tendencia =
  t_id :: int
  t_fecha :: pystr
  t_periodo :: sqlval
  t_tendencia :: sqlval
  t_recomendacion :: sqlval
  t_probabilidad_fuga :: sqlval
  t_detalles :: sqlval

record db_manager =
  flujo_registros :: "registro list"
  tendencias :: "tendencia list"
  pending_analysis :: bool
  records_since_last_analysis :: int
  analysis_threshold :: int

text \<open>
  A call that raises returns \<open>Inl\<close> and no state: in each of these functions every write
  comes after the last statement that can raise, so the state after a raised call is the
  state before it.
\<close>

text \<open>\<open>DatabaseManager.__init__\<close> on an empty database file.\<close>

definition new_db_manager :: db_manager where
  "new_db_manager =
     \<lparr>flujo_registros = [], tendencias = [], pending_analysis = False,
      records_since_last_analysis = 0, analysis_threshold = 5\<rparr>"

text \<open>
  \<open>guardar_flujo(flujo, analisis)\<close> at clock reading \<open>now\<close>
  (\<open>datetime.now().isoformat()\<close>). The INSERT raises when \<open>flujo\<close> is NaN (NULL in a
  NOT NULL column) or \<open>analisis\<close> does not encode; the counter is touched only after it.
\<close>

definition guardar_flujo ::
  "pyfloat \<Rightarrow> pystr option \<Rightarrow> pystr \<Rightarrow> db_manager \<Rightarrow> exn + (registro \<times> bool) \<times> db_manager" where
  "guardar_flujo flujo analisis now s =
     bind_exn (sqlite_bind (PFloat flujo)) (\<lambda>v_flujo.
     bind_exn (sqlite_bind (PStr now)) (\<lambda>v_timestamp.
     bind_exn (sqlite_bind (case analisis of None \<Rightarrow> PNone | Some a \<Rightarrow> PStr a)) (\<lambda>v_analisis.
     bind_exn (not_null (str ''flujo_registros.flujo'') v_flujo) (\<lambda>_.
       (let id_registro = next_id (map reg_id (flujo_registros s));
            row = \<lparr>reg_id = id_registro, reg_flujo = flujo, reg_timestamp = now,
                   reg_analisis = analisis\<rparr>;
            count = records_since_last_analysis s + 1;
            pending = (if count \<ge> analysis_threshold s then True else pending_analysis s)
        in Inr ((row, pending),
                s\<lparr>flujo_registros := flujo_registros s @ [row],
                  records_since_last_analysis := count,
                  pending_analysis := pending\<rparr>))))))"

text \<open>\<open>obtener_historial(limite, offset)\<close>.\<close>

definition obtener_historial :: "db_manager \<Rightarrow> int \<Rightarrow> int \<Rightarrow> registro list" where
  "obtener_historial s limite offset =
     sql_limit limite offset (order_by_desc reg_timestamp (flujo_registros s))"

text \<open>
  \<open>guardar_analisis_tendencia(analisis)\<close> at clock reading \<open>now\<close>: the six values are
  computed (\<open>json.dumps\<close> may raise), bound, stored under each column's affinity and
  checked against NOT NULL; only then are the counter and the flag reset.
\<close>

definition ultimas_24_horas :: pystr where
  "ultimas_24_horas = [250] @ str ''ltimas 24 horas''"

definition guardar_analisis_tendencia ::
  "pylib \<Rightarrow> pystr \<Rightarrow> pydict \<Rightarrow> db_manager \<Rightarrow> exn + int \<times> db_manager" where
  "guardar_analisis_tendencia L now analisis s =
     bind_exn (json_dumps L (dict_get analisis k_detalles (PDict []))) (\<lambda>detalles_json.
     bind_exn (sqlite_bind (PStr now)) (\<lambda>v_fecha.
     bind_exn (sqlite_bind (dict_get analisis k_periodo (PStr ultimas_24_horas))) (\<lambda>v_periodo.
     bind_exn (sqlite_bind (dict_get analisis k_tendencia (PStr (str ''desconocida'')))) (\<lambda>v_tendencia.
     bind_exn (sqlite_bind (dict_get analisis k_recomendacion (PStr (str ''No hay recomendaciones''))))
       (\<lambda>v_recomendacion.
     bind_exn (sqlite_bind (dict_get analisis k_probabilidad_fuga (PFloat (Finite 0))))
       (\<lambda>v_probabilidad.
     bind_exn (sqlite_bind (PStr detalles_json)) (\<lambda>v_detalles.
     bind_exn (not_null (str ''tendencias.periodo'') (text_affinity L v_periodo)) (\<lambda>c_periodo.
     bind_exn (not_null (str ''tendencias.tendencia'') (text_affinity L v_tendencia)) (\<lambda>c_tendencia.
     bind_exn (not_null (str ''tendencias.recomendacion'') (text_affinity L v_recomendacion))
       (\<lambda>c_recomendacion.
       (let id_analisis = next_id (map t_id (tendencias s));
            row = \<lparr>t_id = id_analisis, t_fecha = now, t_periodo = c_periodo,
                   t_tendencia = c_tendencia, t_recomendacion = c_recomendacion,
                   t_probabilidad_fuga = real_affinity L v_probabilidad,
                   t_detalles = text_affinity L v_detalles\<rparr>
        in Inr (id_analisis,
                s\<lparr>tendencias := tendencias s @ [row],
                  records_since_last_analysis := 0,
                  pending_analysis := False\<rparr>))))))))))))"

text \<open>
  \<open>obtener_ultimas_tendencias(limite)\<close>. The stored \<open>detalles\<close> is decoded with
  \<open>json.loads(t[6]) if t[6] else {}\<close>: NULL, the empty text and a zero are falsy.
\<close>

definition decode_detalles :: "pylib \<Rightarrow> sqlval \<Rightarrow> exn + pyval" where
  "decode_detalles L v =
     (case v of
        SNull \<Rightarrow> Inr (PDict [])
      | SText t \<Rightarrow> (if t = [] then Inr (PDict []) else json_loads L t)
      | SInt n \<Rightarrow>
          (if n = 0 then Inr (PDict [])
           else Inl (Exn TypeError
                  (str ''the JSON object must be str, bytes or bytearray, not int'')))
      | SReal f \<Rightarrow>
          (if f = Finite 0 then Inr (PDict [])
           else Inl (Exn TypeError
                  (str ''the JSON object must be str, bytes or bytearray, not float''))))"

definition tendencia_dict :: "pylib \<Rightarrow> tendencia \<Rightarrow> exn + pydict" where
  "tendencia_dict L t =
     bind_exn (decode_detalles L (t_detalles t)) (\<lambda>detalles.
       Inr [(str ''id'', PInt (t_id t)),
            (str ''fecha'', PStr (t_fecha t)),
            (k_periodo, py_of_sql (t_periodo t)),
            (k_tendencia, py_of_sql (t_tendencia t)),
            (k_recomendacion, py_of_sql (t_recomendacion t)),
            (k_probabilidad_fuga, py_of_sql (t_probabilidad_fuga t)),
            (k_detalles, detalles)])"

fun map_exn :: "('a \<Rightarrow> exn + 'b) \<Rightarrow> 'a list \<Rightarrow> exn + 'b list" where
  "map_exn f [] = Inr []"
| "map_exn f (x # xs) =
     bind_exn (f x) (\<lambda>y. bind_exn (map_exn f xs) (\<lambda>ys. Inr (y # ys)))"

definition obtener_ultimas_tendencias :: "pylib \<Rightarrow> db_manager \<Rightarrow> int \<Rightarrow> exn + pydict list" where
  "obtener_ultimas_tendencias L s limite =
     map_exn (tendencia_dict L) (sql_limit limite 0 (order_by_desc t_fecha (tendencias s)))"

definition necesita_analisis :: "db_manager \<Rightarrow> bool" where
  "necesita_analisis s = pending_analysis s"

section \<open>main.py: the analysis task and the endpoints\<close>

text \<open>
  The listing: one line per record, joined by newlines
  (\<open>f"ID: {r['id']}, Flujo: {r['flujo']}%, Timestamp: {r['timestamp']}"\<close>).
\<close>

definition formatear_registro :: "pylib \<Rightarrow> registro \<Rightarrow> pystr" where
  "formatear_registro L r =
     str ''ID: '' @ int_str (reg_id r) @ str '', Flujo: '' @ float_repr L (reg_flujo r) @
     str ''%, Timestamp: '' @ reg_timestamp r"

fun py_join :: "pystr \<Rightarrow> pystr list \<Rightarrow> pystr" where
  "py_join sep [] = []"
| "py_join sep [x] = x"
| "py_join sep (x # y # ys) = x @ sep @ py_join sep (y # ys)"

definition datos_formateados :: "pylib \<Rightarrow> registro list \<Rightarrow> pystr" where
  "datos_formateados L registros =
     py_join [10] (map (formatear_registro L) (py_slice registros 0 50))"

text \<open>
  \<open>sum\<close>, \<open>max\<close> and \<open>min\<close> of a non-empty list of floats: \<open>sum\<close> starts from the
  \<open>int\<close> 0, \<open>max\<close> replaces its candidate by a greater item and \<open>min\<close> by a smaller one.
\<close>

definition py_sum :: "pylib \<Rightarrow> pyfloat list \<Rightarrow> pyfloat" where
  "py_sum L fs = foldl (float_add L) (Finite 0) fs"

definition py_max :: "pylib \<Rightarrow> pyfloat \<Rightarrow> pyfloat list \<Rightarrow> pyfloat" where
  "py_max L x xs = foldl (\<lambda>m y. if float_lt L m y then y else m) x xs"

definition py_min :: "pylib \<Rightarrow> pyfloat \<Rightarrow> pyfloat list \<Rightarrow> pyfloat" where
  "py_min L x xs = foldl (\<lambda>m y. if float_lt L y m then y else m) x xs"

text \<open>
  \<open>stats\<close> (lines 460-466) as the three formatted numbers; with no record each of them
  is the \<open>int\<close> 0, which \<open>:.2f\<close> prints as \<open>0.00\<close>.
\<close>

definition stats_2f :: "pylib \<Rightarrow> pyfloat list \<Rightarrow> exn + pystr \<times> pystr \<times> pystr" where
  "stats_2f L flujos =
     (case flujos of
        [] \<Rightarrow> Inr (str ''0.00'', str ''0.00'', str ''0.00'')
      | x # xs \<Rightarrow>
          bind_exn (float_of_int L (int (length flujos))) (\<lambda>n.
          bind_exn (float_truediv L (py_sum L flujos) n) (\<lambda>promedio.
            Inr (float_format_2f L promedio,
                 float_format_2f L (py_max L x xs),
                 float_format_2f L (py_min L x xs)))))"

text \<open>
  The query (lines 469-480). Its last field is \<open>datos_formateados[:10]\<close>: a slice of
  the listing's text.
\<close>

definition crear_query :: "pylib \<Rightarrow> registro list \<Rightarrow> exn + pystr" where
  \<open>crear_query L registros =
     bind_exn (stats_2f L (map reg_flujo (py_slice registros 0 50))) (\<lambda>(promedio, maximo, minimo).
       Inr (
        str ''\<newline>'' @
        str ''    An'' @
        [225] @
        str ''lisis de datos de flujo de agua:\<newline>'' @
        str ''    \<newline>'' @
        str ''    Estad'' @
        [237] @
        str ''sticas:\<newline>'' @
        str ''    - Promedio: '' @
        promedio @
        str ''%\<newline>'' @
        str ''    - M'' @
        [225] @
        str ''ximo: '' @
        maximo @
        str ''%\<newline>'' @
        str ''    - M'' @
        [237] @
        str ''nimo: '' @
        minimo @
        str ''%\<newline>'' @
        str ''    - Total registros: '' @
        int_str (int (length registros)) @
        str ''\<newline>'' @
        str ''    \<newline>'' @
        str ''    '' @
        [218] @
        str ''ltimos 10 registros:\<newline>'' @
        str ''    '' @
        py_slice (datos_formateados L registros) 0 10 @
        str ''\<newline>'' @
        str ''    ''))\<close>

text \<open>
  \<open>analizar_datos_flujo()\<close> at clock reading \<open>now\<close>: nothing without a client or with
  fewer than 5 records; otherwise the analysis is labelled with its period and saved.
\<close>

definition analizar_datos_flujo ::
  "pylib \<Rightarrow> genai_client option \<Rightarrow> pystr \<Rightarrow> db_manager \<Rightarrow> exn + pydict option \<times> db_manager" where
  "analizar_datos_flujo L client now s =
     (if client = None then Inr (None, s)
      else
        (let registros = obtener_historial s 50 0 in
         if length registros < 5 then Inr (None, s)
         else
           bind_exn (crear_query L registros) (\<lambda>query.
             (let resultado = generate_reasoned_response L client query in
              if resultado \<noteq> [] then
                (let resultado' = dict_set resultado k_periodo
                       (PStr ([250] @ str ''ltimos '' @ int_str (int (length registros)) @
                              str '' registros''))
                 in bind_exn (guardar_analisis_tendencia L now resultado' s)
                      (\<lambda>(id_analisis, s'). Inr (Some resultado', s')))
              else Inr (None, s)))))"

text \<open>
  \<open>POST /flujo\<close>: the reading is stored and, when an analysis is pending, the task is
  handed to the background tasks (the flag returned second).
\<close>

definition recibir_flujo ::
  "pyfloat \<Rightarrow> pystr \<Rightarrow> db_manager \<Rightarrow> exn + (registro \<times> bool) \<times> db_manager" where
  "recibir_flujo flujo now s =
     bind_exn (guardar_flujo flujo None now s) (\<lambda>((row, _), s').
       Inr ((row, necesita_analisis s'), s'))"

text \<open>A run of readings, each stored by \<open>guardar_flujo\<close> with its own clock reading.\<close>

fun guardar_flujos :: "(pyfloat \<times> pystr) list \<Rightarrow> db_manager \<Rightarrow> exn + db_manager" where
  "guardar_flujos [] s = Inr s"
| "guardar_flujos ((flujo, now) # rest) s =
     bind_exn (guardar_flujo flujo None now s) (\<lambda>(_, s'). guardar_flujos rest s')"

section \<open>A reference library\<close>

text \<open>
  An executable instance of \<open>pylib\<close>, used to run the services on concrete inputs. It
  follows CPython's \<open>json\<close> module on the JSON grammar (with its \<open>NaN\<close> and \<open>Infinity\<close>
  literals, strict strings and last-wins duplicate keys) and computes on the exact value
  of a float, so it agrees with CPython wherever no rounding takes place. The theorems
  about the services hold for every library, not only for this one.
\<close>

subsection \<open>Floats\<close>

definition is_digit :: "nat \<Rightarrow> bool" where
  "is_digit c = (48 \<le> c \<and> c \<le> 57)"

definition digits_value :: "pystr \<Rightarrow> nat" where
  "digits_value ds = foldl (\<lambda>a d. 10 * a + (d - 48)) 0 ds"

text \<open>A double overflows to an infinity from \<open>2^1024 - 2^970\<close> on (written out).\<close>

definition double_overflow :: int where
  "double_overflow =
     179769313486231580793728971405303415079934132710037826936173778980444968292764750946649017977587207096330286416692887910946555547851940402630657488671505820681908902000708383676273854845817711531764475730270069855571366959622842914819860834936475292719074168444365510704342711559699508093042880177904174497792"

definition ref_float_of_rat :: "rat \<Rightarrow> pyfloat" where
  "ref_float_of_rat q =
     (if q \<ge> of_int double_overflow then PosInf
      else if q \<le> - of_int double_overflow then NegInf
      else Finite q)"

definition ref_float_of_int :: "int \<Rightarrow> exn + pyfloat" where
  "ref_float_of_int n =
     (if \<bar>n\<bar> \<ge> double_overflow
      then Inl (Exn OverflowError (str ''int too large to convert to float''))
      else Inr (Finite (of_int n)))"

text \<open>
  A decimal numeral \<open>digits [. digits] [e [sign] digits]\<close> with at least one digit
  before the exponent, read from the front of a text: its value and the rest.
\<close>

definition scan_exponent :: "pystr \<Rightarrow> (int \<times> pystr) option" where
  "scan_exponent s =
     (case s of
        [] \<Rightarrow> None
      | e # s1 \<Rightarrow>
          if e = 101 \<or> e = 69 then
            (let (neg, s2) =
                   (case s1 of
                      [] \<Rightarrow> (False, s1)
                    | c # cs \<Rightarrow> if c = 45 then (True, cs) else if c = 43 then (False, cs)
                               else (False, s1));
                 ds = takeWhile is_digit s2
             in if ds = [] then None
                else Some ((if neg then - int (digits_value ds) else int (digits_value ds)),
                           dropWhile is_digit s2))
          else None)"

definition scale10 :: "rat \<Rightarrow> int \<Rightarrow> rat" where
  "scale10 q e = (if e \<ge> 0 then q * 10 ^ nat e else q / 10 ^ nat (- e))"

definition scan_decimal :: "bool \<Rightarrow> pystr \<Rightarrow> (rat \<times> bool \<times> pystr) option" where
  "scan_decimal json s =
     (let ip0 = takeWhile is_digit s;
          ip = (if json \<and> ip0 \<noteq> [] \<and> hd ip0 = 48 then [48] else ip0);
          s1 = drop (length ip) s;
          (fp, s2) =
            (case s1 of
               [] \<Rightarrow> ([], s1)
             | c # cs \<Rightarrow>
                 if c = 46 \<and> (\<not> json \<or> takeWhile is_digit cs \<noteq> [])
                 then (takeWhile is_digit cs, dropWhile is_digit cs)
                 else ([], s1));
          has_point = (s2 \<noteq> s1)
      in if ip = [] \<and> (json \<or> fp = []) then None
         else
           (let m = of_nat (digits_value ip) + of_nat (digits_value fp) / 10 ^ length fp
            in case scan_exponent s2 of
                 Some (e, s3) \<Rightarrow> Some (scale10 m e, True, s3)
               | None \<Rightarrow> Some (m, has_point, s2)))"

definition lower :: "pystr \<Rightarrow> pystr" where
  "lower s = map (\<lambda>c. if 65 \<le> c \<and> c \<le> 90 then c + 32 else c) s"

text \<open>\<open>float(s)\<close> for a text: surrounding whitespace, a sign, then a numeral, \<open>inf\<close>,
  \<open>infinity\<close> or \<open>nan\<close>.\<close>

definition ref_float_of_str :: "pystr \<Rightarrow> exn + pyfloat" where
  "ref_float_of_str s =
     (let t = strip s;
          (neg, u) =
            (case t of
               [] \<Rightarrow> (False, t)
             | c # cs \<Rightarrow> if c = 45 then (True, cs) else if c = 43 then (False, cs)
                        else (False, t));
          bad = Inl (Exn ValueError (str ''could not convert string to float: '' @ quoted s))
      in if lower u = str ''inf'' \<or> lower u = str ''infinity''
         then Inr (if neg then NegInf else PosInf)
         else if lower u = str ''nan'' then Inr NaN
         else (case scan_decimal False u of
                 Some (q, _, rest) \<Rightarrow>
                   if rest = [] then Inr (ref_float_of_rat (if neg then - q else q)) else bad
               | None \<Rightarrow> bad))"

fun ref_float_add :: "pyfloat \<Rightarrow> pyfloat \<Rightarrow> pyfloat" where
  "ref_float_add (Finite a) (Finite b) = ref_float_of_rat (a + b)"
| "ref_float_add NaN _ = NaN"
| "ref_float_add _ NaN = NaN"
| "ref_float_add PosInf NegInf = NaN"
| "ref_float_add NegInf PosInf = NaN"
| "ref_float_add PosInf _ = PosInf"
| "ref_float_add NegInf _ = NegInf"
| "ref_float_add _ PosInf = PosInf"
| "ref_float_add _ NegInf = NegInf"

fun ref_float_neg :: "pyfloat \<Rightarrow> pyfloat" where
  "ref_float_neg (Finite a) = Finite (- a)"
| "ref_float_neg PosInf = NegInf"
| "ref_float_neg NegInf = PosInf"
| "ref_float_neg NaN = NaN"

definition ref_float_sub :: "pyfloat \<Rightarrow> pyfloat \<Rightarrow> pyfloat" where
  "ref_float_sub a b = ref_float_add a (ref_float_neg b)"

fun ref_float_truediv :: "pyfloat \<Rightarrow> pyfloat \<Rightarrow> exn + pyfloat" where
  "ref_float_truediv a (Finite b) =
     (if b = 0 then Inl (Exn ZeroDivisionError (str ''float division by zero''))
      else case a of
             Finite x \<Rightarrow> Inr (ref_float_of_rat (x / b))
           | PosInf \<Rightarrow> Inr (if b > 0 then PosInf else NegInf)
           | NegInf \<Rightarrow> Inr (if b > 0 then NegInf else PosInf)
           | NaN \<Rightarrow> Inr NaN)"
| "ref_float_truediv (Finite x) PosInf = Inr (Finite 0)"
| "ref_float_truediv (Finite x) NegInf = Inr (Finite 0)"
| "ref_float_truediv _ _ = Inr NaN"

fun ref_float_lt :: "pyfloat \<Rightarrow> pyfloat \<Rightarrow> bool" where
  "ref_float_lt (Finite a) (Finite b) = (a < b)"
| "ref_float_lt NaN _ = False"
| "ref_float_lt _ NaN = False"
| "ref_float_lt _ NegInf = False"
| "ref_float_lt PosInf _ = False"
| "ref_float_lt NegInf _ = True"
| "ref_float_lt _ PosInf = True"

text \<open>
  \<open>repr\<close> in fixed notation with at most 17 fraction digits (CPython switches to
  exponent notation below \<open>1e-4\<close> and from \<open>1e16\<close> on), and \<open>format(x, ".2f")\<close>, which
  rounds the exact value half to even.
\<close>

fun fraction_digits :: "nat \<Rightarrow> rat \<Rightarrow> pystr" where
  "fraction_digits 0 q = []"
| "fraction_digits (Suc k) q =
     (if q = 0 then []
      else (let d = nat \<lfloor>q * 10\<rfloor> in (48 + d) # fraction_digits k (q * 10 - of_nat d)))"

definition ref_float_repr :: "pyfloat \<Rightarrow> pystr" where
  "ref_float_repr f =
     (case f of
        NaN \<Rightarrow> str ''nan''
      | PosInf \<Rightarrow> str ''inf''
      | NegInf \<Rightarrow> str ''-inf''
      | Finite q \<Rightarrow>
          (let a = \<bar>q\<bar>; ip = nat \<lfloor>a\<rfloor>; fr = a - of_nat ip
           in (if q < 0 then [45] else []) @ nat_str ip @ [46] @
              (if fr = 0 then [48] else fraction_digits 17 fr)))"

definition round_half_even :: "rat \<Rightarrow> nat" where
  "round_half_even a =
     (let n = nat \<lfloor>a\<rfloor>; r = a - of_nat n
      in if r < 1 / 2 then n else if r > 1 / 2 then n + 1
         else if even n then n else n + 1)"

definition ref_float_format_2f :: "pyfloat \<Rightarrow> pystr" where
  "ref_float_format_2f f =
     (case f of
        NaN \<Rightarrow> str ''nan''
      | PosInf \<Rightarrow> str ''inf''
      | NegInf \<Rightarrow> str ''-inf''
      | Finite q \<Rightarrow>
          (let n = round_half_even (\<bar>q\<bar> * 100)
           in (if q < 0 then [45] else []) @ nat_str (n div 100) @ [46] @
              [48 + (n mod 100) div 10, 48 + n mod 10]))"

text \<open>
  \<open>repr(s)\<close>: single quotes unless the text has one and no double quote; the quote,
  the backslash and the control characters escaped (code points from 161 on are taken
  as printable).
\<close>

definition repr_char :: "nat \<Rightarrow> nat \<Rightarrow> pystr" where
  "repr_char q c =
     (if c = q \<or> c = 92 then [92, c]
      else if c = 9 then [92, 116]
      else if c = 10 then [92, 110]
      else if c = 13 then [92, 114]
      else if c < 32 \<or> (127 \<le> c \<and> c \<le> 160)
      then [92, 120, (let d = c div 16 in if d < 10 then 48 + d else 87 + d),
            (let d = c mod 16 in if d < 10 then 48 + d else 87 + d)]
      else [c])"

definition ref_str_repr :: "pystr \<Rightarrow> pystr" where
  "ref_str_repr s =
     (let q = (if 39 \<in> set s \<and> 34 \<notin> set s then 34 else 39)
      in [q] @ concat (map (repr_char q) s) @ [q])"

definition ref_sqlite_real_of_text :: "pystr \<Rightarrow> pyfloat option" where
  "ref_sqlite_real_of_text s =
     (case ref_float_of_str s of
        Inr (Finite q) \<Rightarrow> Some (Finite q)
      | _ \<Rightarrow> None)"
subsection \<open>json.dumps\<close>

definition hex_digit :: "nat \<Rightarrow> nat" where
  "hex_digit d = (if d < 10 then 48 + d else 87 + d)"

definition u_escape :: "nat \<Rightarrow> pystr" where
  "u_escape c =
     [92, 117, hex_digit (c div 4096 mod 16), hex_digit (c div 256 mod 16),
      hex_digit (c div 16 mod 16), hex_digit (c mod 16)]"

text \<open>
  \<open>ensure_ascii\<close> escaping: the short escapes, printable ASCII as it is, and \<open>\uXXXX\<close>
  for the rest (a surrogate pair above the basic plane).
\<close>

definition escape_char :: "nat \<Rightarrow> pystr" where
  "escape_char c =
     (if c = 34 then [92, 34]
      else if c = 92 then [92, 92]
      else if c = 10 then [92, 110]
      else if c = 13 then [92, 114]
      else if c = 9 then [92, 116]
      else if c = 8 then [92, 98]
      else if c = 12 then [92, 102]
      else if 32 \<le> c \<and> c \<le> 126 then [c]
      else if c < 65536 then u_escape c
      else u_escape (55296 + (c - 65536) div 1024) @ u_escape (56320 + (c - 65536) mod 1024))"

definition dumps_str :: "pystr \<Rightarrow> pystr" where
  "dumps_str s = [34] @ concat (map escape_char s) @ [34]"

definition dumps_float :: "pyfloat \<Rightarrow> pystr" where
  "dumps_float f =
     (case f of
        NaN \<Rightarrow> str ''NaN''
      | PosInf \<Rightarrow> str ''Infinity''
      | NegInf \<Rightarrow> str ''-Infinity''
      | Finite q \<Rightarrow> ref_float_repr f)"

fun dumps_val :: "pyval \<Rightarrow> pystr"
  and dumps_elems :: "pyval list \<Rightarrow> pystr"
  and dumps_items :: "(pystr \<times> pyval) list \<Rightarrow> pystr" where
  "dumps_val PNone = str ''null''"
| "dumps_val (PBool b) = (if b then str ''true'' else str ''false'')"
| "dumps_val (PInt n) = int_str n"
| "dumps_val (PFloat f) = dumps_float f"
| "dumps_val (PStr s) = dumps_str s"
| "dumps_val (PList xs) = [91] @ dumps_elems xs @ [93]"
| "dumps_val (PDict d) = [123] @ dumps_items d @ [125]"
| "dumps_elems [] = []"
| "dumps_elems [x] = dumps_val x"
| "dumps_elems (x # y # ys) = dumps_val x @ str '', '' @ dumps_elems (y # ys)"
| "dumps_items [] = []"
| "dumps_items [(k, v)] = dumps_str k @ str '': '' @ dumps_val v"
| "dumps_items ((k, v) # kv # kvs) =
     dumps_str k @ str '': '' @ dumps_val v @ str '', '' @ dumps_items (kv # kvs)"

definition ref_json_dumps :: "pyval \<Rightarrow> exn + pystr" where
  "ref_json_dumps v = Inr (dumps_val v)"

subsection \<open>json.loads\<close>

definition json_ws :: "nat \<Rightarrow> bool" where
  "json_ws c = (c = 32 \<or> c = 9 \<or> c = 10 \<or> c = 13)"

definition skip_ws :: "pystr \<Rightarrow> pystr" where
  "skip_ws s = dropWhile json_ws s"

definition hex_value :: "nat \<Rightarrow> nat option" where
  "hex_value c =
     (if 48 \<le> c \<and> c \<le> 57 then Some (c - 48)
      else if 97 \<le> c \<and> c \<le> 102 then Some (c - 87)
      else if 65 \<le> c \<and> c \<le> 70 then Some (c - 55)
      else None)"

text \<open>
  The characters of a string after its opening quote, read one at a time: \<open>SPlain\<close>
  between escapes, \<open>SEscape\<close> after a backslash, \<open>SHex k n\<close> with \<open>k\<close> hex digits of a
  \<open>\u\<close> escape still to come. A control character is refused (strict mode). The result
  is the pieces read (a code point, marked when it came from a \<open>\u\<close> escape) and the
  text after the closing quote.
\<close>

datatype scan_state = SPlain | SEscape | SHex nat nat

fun scan_string :: "scan_state \<Rightarrow> (bool \<times> nat) list \<Rightarrow> pystr \<Rightarrow> ((bool \<times> nat) list \<times> pystr) option" where
  "scan_string st acc [] = None"
| "scan_string SPlain acc (c # cs) =
     (if c = 34 then Some (acc, cs)
      else if c = 92 then scan_string SEscape acc cs
      else if c < 32 then None
      else scan_string SPlain (acc @ [(False, c)]) cs)"
| "scan_string SEscape acc (c # cs) =
     (if c = 34 \<or> c = 92 \<or> c = 47 then scan_string SPlain (acc @ [(False, c)]) cs
      else if c = 98 then scan_string SPlain (acc @ [(False, 8)]) cs
      else if c = 102 then scan_string SPlain (acc @ [(False, 12)]) cs
      else if c = 110 then scan_string SPlain (acc @ [(False, 10)]) cs
      else if c = 114 then scan_string SPlain (acc @ [(False, 13)]) cs
      else if c = 116 then scan_string SPlain (acc @ [(False, 9)]) cs
      else if c = 117 then scan_string (SHex 4 0) acc cs
      else None)"
| "scan_string (SHex k n) acc (c # cs) =
     (case hex_value c of
        None \<Rightarrow> None
      | Some d \<Rightarrow>
          if k \<le> 1 then scan_string SPlain (acc @ [(True, 16 * n + d)]) cs
          else scan_string (SHex (k - 1) (16 * n + d)) acc cs)"

text \<open>A high surrogate escape followed by a low surrogate escape is one code point.\<close>

fun join_surrogates :: "(bool \<times> nat) list \<Rightarrow> pystr" where
  "join_surrogates [] = []"
| "join_surrogates [(e, c)] = [c]"
| "join_surrogates ((e1, c1) # (e2, c2) # rest) =
     (if e1 \<and> e2 \<and> 55296 \<le> c1 \<and> c1 \<le> 56319 \<and> 56320 \<le> c2 \<and> c2 \<le> 57343
      then (65536 + (c1 - 55296) * 1024 + (c2 - 56320)) # join_surrogates rest
      else c1 # join_surrogates ((e2, c2) # rest))"

definition scan_str :: "pystr \<Rightarrow> (pystr \<times> pystr) option" where
  "scan_str s =
     (case scan_string SPlain [] s of
        None \<Rightarrow> None
      | Some (pieces, rest) \<Rightarrow> Some (join_surrogates pieces, rest))"

text \<open>
  A number \<open>-?(0|[1-9]\d*)(\.\d+)?([eE][-+]?\d+)?\<close>: an \<open>int\<close> without fraction and
  exponent, a \<open>float\<close> otherwise.
\<close>

definition scan_number :: "pystr \<Rightarrow> (pyval \<times> pystr) option" where
  "scan_number s =
     (let (neg, u) = (case s of [] \<Rightarrow> (False, s) | c # cs \<Rightarrow> if c = 45 then (True, cs) else (False, s))
      in case scan_decimal True u of
           None \<Rightarrow> None
         | Some (q, is_float, rest) \<Rightarrow>
             if is_float then Some (PFloat (ref_float_of_rat (if neg then - q else q)), rest)
             else Some (PInt (if neg then - \<lfloor>q\<rfloor> else \<lfloor>q\<rfloor>), rest))"

definition starts_with :: "pystr \<Rightarrow> pystr \<Rightarrow> bool" where
  "starts_with p s = (take (length p) s = p)"

definition scan_atom :: "pystr \<Rightarrow> (pyval \<times> pystr) option" where
  "scan_atom s =
     (if starts_with (str ''null'') s then Some (PNone, drop 4 s)
      else if starts_with (str ''true'') s then Some (PBool True, drop 4 s)
      else if starts_with (str ''false'') s then Some (PBool False, drop 5 s)
      else case scan_number s of
             Some r \<Rightarrow> Some r
           | None \<Rightarrow>
               if starts_with (str ''NaN'') s then Some (PFloat NaN, drop 3 s)
               else if starts_with (str ''Infinity'') s then Some (PFloat PosInf, drop 8 s)
               else if starts_with (str ''-Infinity'') s then Some (PFloat NegInf, drop 9 s)
               else None)"

text \<open>
  The recursive descent of the decoder. The first argument bounds the number of nested
  calls; \<open>ref_json_loads\<close> starts it with more than a text of that length can need, as
  every call but the first follows a character that was read.
\<close>

fun scan_value :: "nat \<Rightarrow> pystr \<Rightarrow> (pyval \<times> pystr) option"
  and scan_members :: "nat \<Rightarrow> pydict \<Rightarrow> pystr \<Rightarrow> (pydict \<times> pystr) option"
  and scan_elems :: "nat \<Rightarrow> pyval list \<Rightarrow> pystr \<Rightarrow> (pyval list \<times> pystr) option" where
  "scan_value 0 s = None"
| "scan_value (Suc n) s =
     (case s of
        [] \<Rightarrow> None
      | c # cs \<Rightarrow>
          if c = 34 then
            (case scan_str cs of None \<Rightarrow> None | Some (t, rest) \<Rightarrow> Some (PStr t, rest))
          else if c = 123 then
            (case skip_ws cs of
               [] \<Rightarrow> None
             | c' # cs' \<Rightarrow>
                 if c' = 125 then Some (PDict [], cs')
                 else (case scan_members n [] (c' # cs') of
                         None \<Rightarrow> None
                       | Some (d, rest) \<Rightarrow> Some (PDict d, rest)))
          else if c = 91 then
            (case skip_ws cs of
               [] \<Rightarrow> None
             | c' # cs' \<Rightarrow>
                 if c' = 93 then Some (PList [], cs')
                 else (case scan_elems n [] (c' # cs') of
                         None \<Rightarrow> None
                       | Some (xs, rest) \<Rightarrow> Some (PList xs, rest)))
          else scan_atom s)"
| "scan_members 0 acc s = None"
| "scan_members (Suc n) acc s =
     (case s of
        [] \<Rightarrow> None
      | c # cs \<Rightarrow>
          if c \<noteq> 34 then None
          else
            (case scan_str cs of
               None \<Rightarrow> None
             | Some (key, rest) \<Rightarrow>
                 (case skip_ws rest of
                    [] \<Rightarrow> None
                  | c1 # rest1 \<Rightarrow>
                      if c1 \<noteq> 58 then None
                      else
                        (case scan_value n (skip_ws rest1) of
                           None \<Rightarrow> None
                         | Some (v, rest2) \<Rightarrow>
                             (case skip_ws rest2 of
                                [] \<Rightarrow> None
                              | c2 # rest3 \<Rightarrow>
                                  if c2 = 125 then Some (dict_set acc key v, rest3)
                                  else if c2 = 44
                                  then scan_members n (dict_set acc key v) (skip_ws rest3)
                                  else None)))))"
| "scan_elems 0 acc s = None"
| "scan_elems (Suc n) acc s =
     (case scan_value n s of
        None \<Rightarrow> None
      | Some (v, rest) \<Rightarrow>
          (case skip_ws rest of
             [] \<Rightarrow> None
           | c # rest1 \<Rightarrow>
               if c = 93 then Some (acc @ [v], rest1)
               else if c = 44 then scan_elems n (acc @ [v]) (skip_ws rest1)
               else None))"

definition ref_json_loads :: "pystr \<Rightarrow> exn + pyval" where
  "ref_json_loads s =
     (case scan_value (2 * length s + 2) (skip_ws s) of
        None \<Rightarrow> Inl (Exn JSONDecodeError (str ''Expecting value''))
      | Some (v, rest) \<Rightarrow>
          if skip_ws rest = [] then Inr v
          else Inl (Exn JSONDecodeError (str ''Extra data'')))"

definition ref_lib :: pylib where
  "ref_lib =
     \<lparr>json_loads = ref_json_loads,
      json_dumps = ref_json_dumps,
      float_of_int = ref_float_of_int,
      float_of_str = ref_float_of_str,
      float_add = ref_float_add,
      float_sub = ref_float_sub,
      float_truediv = ref_float_truediv,
      float_lt = ref_float_lt,
      float_repr = ref_float_repr,
      float_format_2f = ref_float_format_2f,
      str_repr = ref_str_repr,
      sqlite_real_of_int = (\<lambda>n. Finite (of_int n)),
      sqlite_real_of_text = ref_sqlite_real_of_text,
      sqlite_text_of_real = ref_float_repr\<rparr>"

section \<open>logic.py: ReasoningSystem\<close>

text \<open>
  The reasoning system of \<open>logic.py\<close>, which the service at the end of that file
  imports: its client always exists, and it keeps a history of its answers.
\<close>

record reasoning_system =
  rs_client :: genai_client
  rs_model :: pystr
  rs_history :: "pyval list"

definition create_reasoning_prompt :: "pystr \<Rightarrow> int \<Rightarrow> pystr" where
  \<open>create_reasoning_prompt query num_cycles =
        str ''\<newline>'' @
        str ''        Act'' @
        [250] @
        str ''a como un sistema de razonamiento avanzado que responde a c'' @
        str ''onsultas mediante ciclos de pensamiento.\<newline>'' @
        str ''        \<newline>'' @
        str ''        IMPORTANTE: DEBES devolver SOLO un objeto JSON v'' @
        [225] @
        str ''lido con EXACT'' @
        str ''AMENTE esta estructura, sin texto adicional antes o despu'' @
        [233] @
        str ''s:\<newline>'' @
        str ''        \<newline>'' @
        str ''        {\<newline>'' @
        str ''            "razonamiento": [\<newline>'' @
        str ''                {\<newline>'' @
        str ''                    "ciclo": 1,\<newline>'' @
        str ''                    "an'' @
        [225] @
        str ''lisis": "Tu an'' @
        [225] @
        str ''lisis inicial...",\<newline>'' @
        str ''                    "ideas": "Ideas generadas...",\<newline>'' @
        str ''                    "evaluaci'' @
        [243] @
        str ''n": "Evaluaci'' @
        [243] @
        str ''n cr'' @
        [237] @
        str ''tica...",\<newline>'' @
        str ''                    "refinamiento": "Refinamiento de la idea..."\<newline>'' @
        str ''                },\<newline>'' @
        str ''                // Repite exactamente este formato para cada ciclo\<newline>'' @
        str ''            ],\<newline>'' @
        str ''            "respuesta_final": "Tu respuesta final en formato markdown'' @
        str '', did'' @
        [225] @
        str ''ctica e incluyendo emojis apropiados."\<newline>'' @
        str ''        }\<newline>'' @
        str ''        \<newline>'' @
        str ''        # Instrucci'' @
        [243] @
        str ''n\<newline>'' @
        str ''        Responde a la siguiente consulta utilizando exactamente '' @
        int_str num_cycles @
        str '' ciclos de razonamiento expl'' @
        [237] @
        str ''cito. \<newline>'' @
        str ''        Para cada ciclo, debes:\<newline>'' @
        str ''        \<newline>'' @
        str ''        1. Analizar la informaci'' @
        [243] @
        str ''n disponible hasta el momento\<newline>'' @
        str ''        2. Generar nuevas ideas o perspectivas\<newline>'' @
        str ''        3. Evaluar cr'' @
        [237] @
        str ''ticamente tus conclusiones\<newline>'' @
        str ''        4. Refinar tu respuesta basada en este an'' @
        [225] @
        str ''lisis\<newline>'' @
        str ''        \<newline>'' @
        str ''        # Consulta\<newline>'' @
        str ''        '' @
        query @
        str ''\<newline>'' @
        str ''        \<newline>'' @
        str ''        Recuerda: tu respuesta DEBE ser SOLO un objeto JSON v'' @
        [225] @
        str ''lido que '' @
        str ''siga EXACTAMENTE la estructura solicitada.\<newline>'' @
        str ''        ''\<close>

text \<open>
  \<open>k in x\<close> for a text \<open>k\<close>: a key of a dict, an element of a list, a part of a text,
  and \<open>TypeError\<close> for a value that is not iterable.
\<close>

fun is_substr :: "pystr \<Rightarrow> pystr \<Rightarrow> bool" where
  "is_substr p [] = (p = [])"
| "is_substr p (c # cs) = (take (length p) (c # cs) = p \<or> is_substr p cs)"

definition py_contains :: "pyval \<Rightarrow> pystr \<Rightarrow> exn + bool" where
  "py_contains x k =
     (case x of
        PDict d \<Rightarrow> Inr (dict_has d k)
      | PList xs \<Rightarrow> Inr (PStr k \<in> set xs)
      | PStr t \<Rightarrow> Inr (is_substr k t)
      | _ \<Rightarrow> Inl (Exn TypeError
                 (str ''argument of type '' @ quoted (type_name x) @ str '' is not iterable'')))"

text \<open>\<open>x[k] = v\<close> for a text \<open>k\<close>: only a dict takes it.\<close>

definition py_setitem :: "pyval \<Rightarrow> pystr \<Rightarrow> pyval \<Rightarrow> exn + pyval" where
  "py_setitem x k v =
     (case x of
        PDict d \<Rightarrow> Inr (PDict (dict_set d k v))
      | _ \<Rightarrow> Inl (Exn TypeError
                 (quoted (type_name x) @ str '' object does not support item assignment'')))"

definition py_of_text :: "pystr option \<Rightarrow> pyval" where
  "py_of_text text = (case text of None \<Rightarrow> PNone | Some t \<Rightarrow> PStr t)"

definition k_razonamiento :: pystr where "k_razonamiento = str ''razonamiento''"
definition k_respuesta_final :: pystr where "k_respuesta_final = str ''respuesta_final''"
definition k_analisis :: pystr where "k_analisis = str ''an'' @ [225] @ str ''lisis''"

text \<open>
  Lines 101-133, the body of the inner \<open>try\<close>: the parsed candidate, replaced by a
  structure of its own when it has neither expected key (the conditional expression of
  line 129 then takes \<open>response.text\<close>, its test being the one just passed).
\<close>

definition parse_reasoning :: "pylib \<Rightarrow> pystr option \<Rightarrow> exn + pyval" where
  "parse_reasoning L text =
     (case text of
        None \<Rightarrow> Inl (Exn AttributeError
                  (quoted (str ''NoneType'') @ str '' object has no attribute '' @
                   quoted (str ''strip'')))
      | Some t \<Rightarrow>
          bind_exn
            (case json_candidate (strip t) of
               Some json_text \<Rightarrow> json_loads L json_text
             | None \<Rightarrow> Inl (Exn JSONDecodeError
                         (str ''No se encontr'' @ [243] @
                          str '' estructura JSON: line 1 column 1 (char 0)'')))
            (\<lambda>result.
               bind_exn (py_contains result k_razonamiento) (\<lambda>has_razonamiento.
                 if has_razonamiento then Inr result
                 else
                   bind_exn (py_contains result k_respuesta_final) (\<lambda>has_final.
                     if has_final then Inr result
                     else
                       Inr (PDict
                         [(k_razonamiento,
                             PList [PDict [(str ''ciclo'', PInt 1),
                                           (k_analisis,
                                              PStr (str ''Procesamiento directo sin ciclos expl'' @
                                                    [237] @ str ''citos''))]]),
                          (k_respuesta_final, PStr t)])))))"

text \<open>The result of the inner handler (lines 135-146).\<close>

definition plain_text_result :: "pystr option \<Rightarrow> pyval" where
  "plain_text_result text =
     PDict
       [(k_razonamiento,
           PList [PDict [(str ''ciclo'', PInt 1),
                         (k_analisis,
                            PStr (str ''El modelo no estructur'' @ [243] @
                                  str '' la respuesta en el formato solicitado''))]]),
        (k_respuesta_final, py_of_text text),
        (str ''formato_original'', PStr (str ''texto_plano''))]"

text \<open>
  \<open>generate_reasoned_response(query, num_cycles, temperature)\<close> of \<open>logic.py\<close>, with
  the three readings of \<open>time.time()\<close> it takes: the answer and the system with its
  history. The inner handler catches \<open>ValueError\<close> and its subclasses only; the outer
  one answers every other exception.
\<close>

definition generate_reasoned_response_v2 ::
  "pylib \<Rightarrow> reasoning_system \<Rightarrow> pystr \<Rightarrow> int \<Rightarrow> pyfloat \<Rightarrow> pyfloat \<times> pyfloat \<times> pyfloat \<Rightarrow>
   pyval \<times> reasoning_system" where
  "generate_reasoned_response_v2 L rs query num_cycles temperature clock =
     (let (start_time, end_time, stamp) = clock;
          elapsed_time = float_sub L end_time start_time
      in case
           bind_exn (rs_client rs (create_reasoning_prompt query num_cycles)) (\<lambda>text.
           bind_exn
             (case parse_reasoning L text of
                Inr result \<Rightarrow> Inr result
              | Inl e \<Rightarrow> if is_ValueError (exn_cls e) then Inr (plain_text_result text) else Inl e)
             (\<lambda>result.
                py_setitem result (str ''metadatos'')
                  (PDict [(str ''modelo'', PStr (rs_model rs)),
                          (str ''tiempo_generacion'',
                             PStr (float_format_2f L elapsed_time @ str '' segundos'')),
                          (str ''ciclos_solicitados'', PInt num_cycles),
                          (str ''temperatura'', PFloat temperature)])))
         of
           Inr result \<Rightarrow>
             (result,
              rs\<lparr>rs_history := rs_history rs @
                     [PDict [(str ''query'', PStr query), (str ''response'', result),
                             (str ''timestamp'', PFloat stamp)]]\<rparr>)
         | Inl e \<Rightarrow>
             (PDict [(str ''error'', PStr (exn_str e)),
                     (k_respuesta_final, PStr (str ''Error al generar respuesta: '' @ exn_str e))],
              rs))"

section \<open>logic.py: the service at the end of the file\<close>

record db_manager_v2 =
  v2_flujo_registros :: "registro list"
  v2_tendencias_analisis :: "tendencia list"

definition guardar_flujo_v2 ::
  "pyfloat \<Rightarrow> pystr option \<Rightarrow> pystr \<Rightarrow> db_manager_v2 \<Rightarrow> exn + registro \<times> db_manager_v2" where
  "guardar_flujo_v2 flujo analisis now s =
     bind_exn (sqlite_bind (PFloat flujo)) (\<lambda>v_flujo.
     bind_exn (sqlite_bind (PStr now)) (\<lambda>v_timestamp.
     bind_exn (sqlite_bind (case analisis of None \<Rightarrow> PNone | Some a \<Rightarrow> PStr a)) (\<lambda>v_analisis.
     bind_exn (not_null (str ''flujo_registros.flujo'') v_flujo) (\<lambda>_.
       (let row = \<lparr>reg_id = next_id (map reg_id (v2_flujo_registros s)), reg_flujo = flujo,
                   reg_timestamp = now, reg_analisis = analisis\<rparr>
        in Inr (row, s\<lparr>v2_flujo_registros := v2_flujo_registros s @ [row]\<rparr>))))))"

definition obtener_historial_v2 :: "db_manager_v2 \<Rightarrow> int \<Rightarrow> int \<Rightarrow> registro list" where
  "obtener_historial_v2 s limite offset =
     sql_limit limite offset (order_by_desc reg_timestamp (v2_flujo_registros s))"

text \<open>\<open>guardar_analisis_tendencia(analisis)\<close> of this service: the row is stored; there
  is no counter to reset.\<close>

definition guardar_analisis_tendencia_v2 ::
  "pylib \<Rightarrow> pystr \<Rightarrow> pydict \<Rightarrow> db_manager_v2 \<Rightarrow> exn + db_manager_v2" where
  "guardar_analisis_tendencia_v2 L now analisis s =
     bind_exn (json_dumps L (dict_get analisis k_detalles (PDict []))) (\<lambda>detalles_json.
     bind_exn (sqlite_bind (PStr now)) (\<lambda>v_fecha.
     bind_exn (sqlite_bind (dict_get analisis k_periodo (PStr (str ''24h'')))) (\<lambda>v_periodo.
     bind_exn (sqlite_bind (dict_get analisis k_tendencia (PStr []))) (\<lambda>v_tendencia.
     bind_exn (sqlite_bind (dict_get analisis k_recomendacion (PStr []))) (\<lambda>v_recomendacion.
     bind_exn (sqlite_bind (dict_get analisis k_probabilidad_fuga (PFloat (Finite 0))))
       (\<lambda>v_probabilidad.
     bind_exn (sqlite_bind (PStr detalles_json)) (\<lambda>v_detalles.
     bind_exn (not_null (str ''tendencias_analisis.periodo'') (text_affinity L v_periodo))
       (\<lambda>c_periodo.
     bind_exn (not_null (str ''tendencias_analisis.tendencia'') (text_affinity L v_tendencia))
       (\<lambda>c_tendencia.
     bind_exn (not_null (str ''tendencias_analisis.recomendacion'')
                 (text_affinity L v_recomendacion))
       (\<lambda>c_recomendacion.
       (let row = \<lparr>t_id = next_id (map t_id (v2_tendencias_analisis s)), t_fecha = now,
                   t_periodo = c_periodo, t_tendencia = c_tendencia,
                   t_recomendacion = c_recomendacion,
                   t_probabilidad_fuga = real_affinity L v_probabilidad,
                   t_detalles = text_affinity L v_detalles\<rparr>
        in Inr (s\<lparr>v2_tendencias_analisis := v2_tendencias_analisis s @ [row]\<rparr>))))))))))))"

text \<open>
  \<open>re.search(r"\{.*\}", x, re.DOTALL)\<close>: for a text, the stretch from its first \<open>{\<close>
  to its last \<open>}\<close> when the one precedes the other; \<open>TypeError\<close> for anything that is
  not a text.
\<close>

definition re_search_braces :: "pyval \<Rightarrow> exn + pystr option" where
  "re_search_braces x =
     (case x of
        PStr t \<Rightarrow> Inr (json_candidate t)
      | _ \<Rightarrow> Inl (Exn TypeError
                 (str ''expected string or bytes-like object, got '' @ quoted (type_name x))))"

definition list_repr :: "pystr list \<Rightarrow> pystr" where
  "list_repr items = [91] @ py_join (str '', '') items @ [93]"

definition crear_query_v2 :: "pylib \<Rightarrow> registro list \<Rightarrow> pystr" where
  \<open>crear_query_v2 L ultimos_registros =
        str ''\<newline>'' @
        str ''    Analiza los siguientes datos de flujo de agua y proporciona una ev'' @
        str ''aluaci'' @
        [243] @
        str ''n:\<newline>'' @
        str ''    \<newline>'' @
        str ''    Datos: '' @
        list_repr (map (float_repr L \<circ> reg_flujo) ultimos_registros) @
        str ''\<newline>'' @
        str ''    Timestamps: '' @
        list_repr (map (str_repr L \<circ> reg_timestamp) ultimos_registros) @
        str ''\<newline>'' @
        str ''    \<newline>'' @
        str ''    Proporciona:\<newline>'' @
        str ''    1. La tendencia general del flujo (estable, creciente, decreciente'' @
        str '', fluctuante)\<newline>'' @
        str ''    2. Si hay indicios de posibles fugas basados en patrones anormales'' @
        str ''\<newline>'' @
        str ''    3. Una estimaci'' @
        [243] @
        str ''n de probabilidad de fuga (0-100%)\<newline>'' @
        str ''    4. Recomendaciones espec'' @
        [237] @
        str ''ficas basadas en estos datos\<newline>'' @
        str ''    \<newline>'' @
        str ''    Responde en formato JSON con las siguientes claves:\<newline>'' @
        str ''    tendencia, probabilidad_fuga, recomendacion, detalles\<newline>'' @
        str ''    ''\<close>

text \<open>
  What the \<open>try\<close> of \<open>analizar_datos_flujo(ultimos_registros)\<close> does once the reasoning
  system has answered (lines 558-580): the saved analysis, or \<open>None\<close> without a match.
\<close>

definition guardar_respuesta_v2 ::
  "pylib \<Rightarrow> pystr \<Rightarrow> nat \<Rightarrow> pyval \<Rightarrow> db_manager_v2 \<Rightarrow> exn + pyval option \<times> db_manager_v2" where
  "guardar_respuesta_v2 L now n resultado s =
     bind_exn (re_search_braces resultado) (\<lambda>json_match.
       case json_match of
         None \<Rightarrow> Inr (None, s)
       | Some json_text \<Rightarrow>
           bind_exn (json_loads L json_text) (\<lambda>analisis.
           bind_exn (py_setitem analisis k_periodo
                       (PStr (if n > 24 then ultimas_24_horas
                              else [250] @ str ''ltimos '' @ int_str (int n) @ str '' registros'')))
             (\<lambda>analisis'.
                case analisis' of
                  PDict d \<Rightarrow>
                    bind_exn (guardar_analisis_tendencia_v2 L now d s) (\<lambda>s'.
                      Inr (Some analisis', s'))
                | _ \<Rightarrow> Inl (Exn AttributeError
                           (quoted (type_name analisis') @ str '' object has no attribute '' @
                            quoted (str ''get''))))))"

text \<open>
  \<open>analizar_datos_flujo(ultimos_registros)\<close>: nothing for no records; otherwise the
  reasoning system is asked with two cycles (and its default temperature, the double
  written \<open>0.7\<close>) and every exception after that is answered with \<open>None\<close>.
\<close>

definition analizar_datos_flujo_v2 ::
  "pylib \<Rightarrow> pystr \<Rightarrow> pyfloat \<times> pyfloat \<times> pyfloat \<Rightarrow> registro list \<Rightarrow>
   reasoning_system \<Rightarrow> db_manager_v2 \<Rightarrow> pyval option \<times> reasoning_system \<times> db_manager_v2" where
  "analizar_datos_flujo_v2 L now clock ultimos_registros rs s =
     (if ultimos_registros = [] then (None, rs, s)
      else
        (let (resultado, rs') =
               generate_reasoned_response_v2 L rs (crear_query_v2 L ultimos_registros) 2
                 (Finite (3152519739159347 / 4503599627370496)) clock
         in case guardar_respuesta_v2 L now (length ultimos_registros) resultado s of
              Inr (analisis, s') \<Rightarrow> (analisis, rs', s')
            | Inl e \<Rightarrow> (None, rs', s)))"

text \<open>
  \<open>POST /flujo\<close> and \<open>GET /analizar-ahora\<close>: the second component is the argument of
  the analysis task handed to the background tasks, if any.
\<close>

definition recibir_flujo_v2 ::
  "pyfloat \<Rightarrow> pystr \<Rightarrow> db_manager_v2 \<Rightarrow> exn + (registro \<times> registro list option) \<times> db_manager_v2" where
  "recibir_flujo_v2 flujo now s =
     bind_exn (guardar_flujo_v2 flujo None now s) (\<lambda>(registro, s').
       (let ultimos_registros = obtener_historial_v2 s' 48 0
        in Inr ((registro,
                 if length ultimos_registros \<ge> 100 then Some ultimos_registros else None),
                s')))"

definition analizar_ahora_v2 :: "db_manager_v2 \<Rightarrow> registro list option" where
  "analizar_ahora_v2 s =
     (let ultimos_registros = obtener_historial_v2 s 48 0
      in if length ultimos_registros \<ge> 10 then Some ultimos_registros else None)"

section \<open>The results the specification names\<close>

text \<open>
  The fallback result in the specification's words: the trend marked
  \<open>an\<aacute>lisis incompleto\<close>, probability 0, the fixed recommendation of a manual review,
  and the first 500 characters of a text followed by the marker \<open>...\<close>.
\<close>

definition fallback_result :: "pystr \<Rightarrow> pydict" where
  "fallback_result text =
     [(k_tendencia, PStr analisis_incompleto),
      (k_probabilidad_fuga, PInt 0),
      (k_recomendacion, PStr (str ''Se recomienda revisar manualmente los datos'')),
      (k_detalles, PDict [(k_respuesta_original, PStr (take 500 text @ str ''...''))])]"

text \<open>A probability within the interval from 0 to 100.\<close>

definition probability_in_range :: "pyval \<Rightarrow> bool" where
  "probability_in_range v =
     (case v of
        PInt n \<Rightarrow> 0 \<le> n \<and> n \<le> 100
      | PFloat (Finite q) \<Rightarrow> 0 \<le> q \<and> q \<le> 100
      | _ \<Rightarrow> False)"

section \<open>Concrete inputs\<close>

text \<open>Five readings half a minute apart, and a service that answers with a fixed text.\<close>

definition lecturas5 :: "(pyfloat \<times> pystr) list" where
  "lecturas5 =
     [(Finite 10, str ''2024-05-01T10:00:00.000001''),
      (Finite 12, str ''2024-05-01T10:00:30.000001''),
      (Finite (25 / 2), str ''2024-05-01T10:01:00.000001''),
      (Finite 11, str ''2024-05-01T10:01:30.000001''),
      (Finite 13, str ''2024-05-01T10:02:00.000001'')]"

definition answers :: "pystr \<Rightarrow> genai_client" where
  "answers text = (\<lambda>prompt. Inr (Some text))"

definition pending_db :: db_manager where
  "pending_db =
     \<lparr>flujo_registros =
        [\<lparr>reg_id = 1, reg_flujo = Finite 10, reg_timestamp = str ''2024-05-01T10:00:00.000001'',
          reg_analisis = None\<rparr>,
         \<lparr>reg_id = 2, reg_flujo = Finite 12, reg_timestamp = str ''2024-05-01T10:00:30.000001'',
          reg_analisis = None\<rparr>],
      tendencias = [], pending_analysis = True, records_since_last_analysis = 7,
      analysis_threshold = 5\<rparr>"

text \<open>
  A database with one stored trend, saved at half past two in the night a clock is set
  back by an hour, and an analysis to be saved after it.
\<close>

definition db_con_tendencia :: db_manager where
  \<open>db_con_tendencia =
     \<lparr>flujo_registros = [],
      tendencias =
        [\<lparr>t_id = 1, t_fecha = str ''2024-10-27T02:30:00.000001'',
          t_periodo = SText ([250] @ str ''ltimos 5 registros''),
          t_tendencia = SText (str ''estable''),
          t_recomendacion = SText (str ''ok''),
          t_probabilidad_fuga = SReal (Finite 5),
          t_detalles = SText (str ''{"explicacion": "antes"}'')\<rparr>],
      pending_analysis = True, records_since_last_analysis = 5, analysis_threshold = 5\<rparr>\<close>

definition analisis_despues :: pydict where
  "analisis_despues =
     [(k_tendencia, PStr (str ''creciente'')),
      (k_probabilidad_fuga, PFloat (Finite 40)),
      (k_recomendacion, PStr (str ''revisar'')),
      (k_detalles, PDict [(str ''explicacion'', PStr (str ''despues''))]),
      (k_periodo, PStr ([250] @ str ''ltimos 5 registros''))]"

text \<open>
  A reasoning system of \<open>logic.py\<close> whose service answers with a well-formed analysis,
  three clock readings, and the readings of \<open>lecturas5\<close> as stored records.
\<close>

definition sistema_estable :: reasoning_system where
  \<open>sistema_estable =
     \<lparr>rs_client = answers (str ''{"tendencia": "estable", "probabilidad_fuga": 5, "recomendacion": "ok", "detalles": {}}''),
      rs_model = str ''gemini-1.5-pro'',
      rs_history = []\<rparr>\<close>

definition reloj :: "pyfloat \<times> pyfloat \<times> pyfloat" where
  "reloj = (Finite 1714557720, Finite (3429115443 / 2), Finite (3429115443 / 2))"

definition registros5 :: "registro list" where
  "registros5 =
     [\<lparr>reg_id = 5, reg_flujo = Finite 13, reg_timestamp = str ''2024-05-01T10:02:00.000001'',
       reg_analisis = None\<rparr>,
      \<lparr>reg_id = 4, reg_flujo = Finite 11, reg_timestamp = str ''2024-05-01T10:01:30.000001'',
       reg_analisis = None\<rparr>,
      \<lparr>reg_id = 3, reg_flujo = Finite (25 / 2), reg_timestamp = str ''2024-05-01T10:01:00.000001'',
       reg_analisis = None\<rparr>,
      \<lparr>reg_id = 2, reg_flujo = Finite 12, reg_timestamp = str ''2024-05-01T10:00:30.000001'',
       reg_analisis = None\<rparr>,
      \<lparr>reg_id = 1, reg_flujo = Finite 10, reg_timestamp = str ''2024-05-01T10:00:00.000001'',
       reg_analisis = None\<rparr>]"

definition db_v2_vacia :: db_manager_v2 where
  "db_v2_vacia = \<lparr>v2_flujo_registros = [], v2_tendencias_analisis = []\<rparr>"

text \<open>
  The database after the five readings of \<open>lecturas5\<close>, and an answer of the service
  whose \<open>tendencia\<close> is \<open>null\<close>.
\<close>

definition db_cinco :: db_manager where
  "db_cinco =
     \<lparr>flujo_registros =
        [\<lparr>reg_id = 1, reg_flujo = Finite 10, reg_timestamp = str ''2024-05-01T10:00:00.000001'',
          reg_analisis = None\<rparr>,
         \<lparr>reg_id = 2, reg_flujo = Finite 12, reg_timestamp = str ''2024-05-01T10:00:30.000001'',
          reg_analisis = None\<rparr>,
         \<lparr>reg_id = 3, reg_flujo = Finite (25 / 2), reg_timestamp = str ''2024-05-01T10:01:00.000001'',
          reg_analisis = None\<rparr>,
         \<lparr>reg_id = 4, reg_flujo = Finite 11, reg_timestamp = str ''2024-05-01T10:01:30.000001'',
          reg_analisis = None\<rparr>,
         \<lparr>reg_id = 5, reg_flujo = Finite 13, reg_timestamp = str ''2024-05-01T10:02:00.000001'',
          reg_analisis = None\<rparr>],
      tendencias = [], pending_analysis = True, records_since_last_analysis = 5,
      analysis_threshold = 5\<rparr>"

definition respuesta_sin_tendencia :: pystr where
  \<open>respuesta_sin_tendencia =
     str ''{"tendencia": null, "probabilidad_fuga": 10, "recomendacion": "ok", "detalles": {}}''\<close>

section \<open>Properties\<close>

subsection \<open>The interpreter always answers\<close>

lemma keys_distinct:
  "k_tendencia \<noteq> k_probabilidad_fuga" "k_tendencia \<noteq> k_recomendacion" "k_tendencia \<noteq> k_detalles"
  "k_probabilidad_fuga \<noteq> k_recomendacion" "k_probabilidad_fuga \<noteq> k_detalles"
  "k_recomendacion \<noteq> k_detalles"
  "k_periodo \<noteq> k_tendencia" "k_periodo \<noteq> k_probabilidad_fuga" "k_periodo \<noteq> k_recomendacion"
  "k_periodo \<noteq> k_detalles"
  by (simp_all add: k_tendencia_def k_probabilidad_fuga_def k_recomendacion_def k_detalles_def
        k_periodo_def str_def)

lemma well_formed_four:
  "well_formed_analysis
     [(k_tendencia, a), (k_probabilidad_fuga, b), (k_recomendacion, c), (k_detalles, d)]"
  using keys_distinct by (simp add: well_formed_analysis_def dict_has_def)

lemma fallback_Some:
  "create_fallback_analysis (Some t) =
     Inr [(k_tendencia, PStr analisis_incompleto),
          (k_probabilidad_fuga, PInt 0),
          (k_recomendacion, PStr (str ''Se recomienda revisar manualmente los datos'')),
          (k_detalles, PDict [(k_respuesta_original, PStr (py_slice t 0 500 @ str ''...''))])]"
  by (simp add: create_fallback_analysis_def)

lemma format_result_well_formed:
  "format_result L result = Inr d \<Longrightarrow> well_formed_analysis d"
  by (auto simp: format_result_def bind_exn_def well_formed_four split: pyval.splits sum.splits)

lemma parse_response_well_formed:
  "parse_response L text = Inr d \<Longrightarrow> well_formed_analysis d"
  by (auto simp: parse_response_def bind_exn_def Let_def fallback_Some well_formed_four
        create_fallback_analysis_def
      split: option.splits sum.splits dest: format_result_well_formed)

lemma interpret_response_well_formed:
  "interpret_response L text = Inr d \<Longrightarrow> well_formed_analysis d"
  by (auto simp: interpret_response_def fallback_Some well_formed_four create_fallback_analysis_def
      split: sum.splits option.splits dest: parse_response_well_formed)

lemma interpret_response_returns:
  "\<exists>d. interpret_response L (Some t) = Inr d"
  by (simp add: interpret_response_def fallback_Some split: sum.splits)

lemma error_analysis_well_formed: "well_formed_analysis (error_analysis e)"
  by (simp add: error_analysis_def well_formed_four)

text \<open>
  Claim C1. Whatever text the service answers with, interpreting it returns an analysis
  with the four fields \<open>tendencia\<close>, \<open>probabilidad_fuga\<close>, \<open>recomendacion\<close> and
  \<open>detalles\<close>: every exception raised while trimming, locating, parsing or reading the
  candidate is answered by the fallback analysis. The whole call with a client returns
  such an analysis too, also when the service raises or answers without text.
\<close>

theorem interpreter_never_raises:
  "(\<exists>d. interpret_response L (Some t) = Inr d \<and> well_formed_analysis d) \<and>
   well_formed_analysis (generate_reasoned_response L (Some generate_content) query)"
proof
  obtain d where d: "interpret_response L (Some t) = Inr d"
    using interpret_response_returns by blast
  then show "\<exists>d. interpret_response L (Some t) = Inr d \<and> well_formed_analysis d"
    using interpret_response_well_formed by blast
next
  show "well_formed_analysis (generate_reasoned_response L (Some generate_content) query)"
    by (auto simp: generate_reasoned_response_def bind_exn_def error_analysis_well_formed
        split: sum.splits dest: interpret_response_well_formed)
qed

subsection \<open>The trigger state\<close>

lemma guardar_flujo_state:
  assumes "guardar_flujo flujo analisis now s = Inr (r, s')"
  shows "records_since_last_analysis s' = records_since_last_analysis s + 1"
    and "analysis_threshold s' = analysis_threshold s"
    and "pending_analysis s' =
           (pending_analysis s \<or> analysis_threshold s \<le> records_since_last_analysis s + 1)"
    and "tendencias s' = tendencias s"
  using assms
  by (auto simp: guardar_flujo_def bind_exn_def Let_def split: sum.splits if_splits)

lemma guardar_flujo_returns:
  assumes "flujo \<noteq> NaN" and "\<not> has_surrogate now"
  shows "\<exists>r s'. guardar_flujo flujo None now s = Inr (r, s')"
  using assms
  by (simp add: guardar_flujo_def bind_exn_def sqlite_bind_def not_null_def Let_def)

lemma guardar_flujos_state:
  "guardar_flujos xs s = Inr s' \<Longrightarrow>
     records_since_last_analysis s' = records_since_last_analysis s + int (length xs) \<and>
     analysis_threshold s' = analysis_threshold s \<and>
     pending_analysis s' =
       (pending_analysis s \<or>
        (xs \<noteq> [] \<and> analysis_threshold s \<le> records_since_last_analysis s + int (length xs)))"
proof (induction xs arbitrary: s)
  case Nil
  then show ?case by simp
next
  case (Cons x xs)
  obtain flujo now where x: "x = (flujo, now)" by (cases x)
  from Cons.prems x obtain r s1 where
    step: "guardar_flujo flujo None now s = Inr (r, s1)" and
    rest: "guardar_flujos xs s1 = Inr s'"
    by (auto simp: bind_exn_def split: sum.splits)
  note st = guardar_flujo_state [OF step]
  from Cons.IH [OF rest] st show ?case
    by (cases "xs = []") auto
qed

lemma guardar_flujos_returns:
  "list_all (\<lambda>(flujo, now). flujo \<noteq> NaN \<and> \<not> has_surrogate now) xs \<Longrightarrow>
     \<exists>s'. guardar_flujos xs s = Inr s'"
proof (induction xs arbitrary: s)
  case Nil
  then show ?case by simp
next
  case (Cons x xs)
  obtain flujo now where x: "x = (flujo, now)" by (cases x)
  with Cons.prems have ok: "flujo \<noteq> NaN" "\<not> has_surrogate now" by auto
  from guardar_flujo_returns [OF ok] obtain r s1 where
    step: "guardar_flujo flujo None now s = Inr (r, s1)" by blast
  from Cons.prems Cons.IH [of s1] obtain s' where "guardar_flujos xs s1 = Inr s'" by auto
  with step x show ?case by (simp add: bind_exn_def)
qed

lemma guardar_analisis_tendencia_resets:
  "guardar_analisis_tendencia L now analisis s = Inr (i, s') \<Longrightarrow>
     records_since_last_analysis s' = 0 \<and> \<not> pending_analysis s'"
  by (auto simp: guardar_analisis_tendencia_def bind_exn_def Let_def split: sum.splits)

text \<open>
  The trigger state over calls that return. Every reading that \<open>guardar_flujo\<close> stores
  adds exactly one to \<open>records_since_last_analysis\<close> and never clears a pending
  analysis. From the reset state (counter 0, nothing pending, threshold 5) a run of
  stored readings leaves the counter at their number, and \<open>necesita_analisis\<close> holds
  exactly when there were at least five. A \<open>guardar_analisis_tendencia\<close> that returns
  leaves the counter at 0 and nothing pending; one whose INSERT raises is the subject of
  the last subsection.
\<close>

lemma trigger_state_machine:
  "(\<forall>flujo analisis now s r s'.
      guardar_flujo flujo analisis now s = Inr (r, s') \<longrightarrow>
        records_since_last_analysis s' = records_since_last_analysis s + 1 \<and>
        (necesita_analisis s \<longrightarrow> necesita_analisis s')) \<and>
   (\<forall>xs s s'.
      records_since_last_analysis s = 0 \<and> \<not> pending_analysis s \<and> analysis_threshold s = 5 \<and>
      guardar_flujos xs s = Inr s' \<longrightarrow>
        records_since_last_analysis s' = int (length xs) \<and>
        necesita_analisis s' = (5 \<le> length xs)) \<and>
   (\<forall>L now analisis s i s'.
      guardar_analisis_tendencia L now analisis s = Inr (i, s') \<longrightarrow>
        records_since_last_analysis s' = 0 \<and> \<not> necesita_analisis s')"
proof (intro conjI allI impI)
  fix flujo analisis now s r s'
  assume a: "guardar_flujo flujo analisis now s = Inr (r, s')"
  show "records_since_last_analysis s' = records_since_last_analysis s + 1"
    using guardar_flujo_state(1) [OF a] .
  assume "necesita_analisis s"
  then show "necesita_analisis s'"
    using guardar_flujo_state(3) [OF a] by (simp add: necesita_analisis_def)
next
  fix xs s s'
  assume a: "records_since_last_analysis s = 0 \<and> \<not> pending_analysis s \<and>
             analysis_threshold s = 5 \<and> guardar_flujos xs s = Inr s'"
  then have run: "guardar_flujos xs s = Inr s'" by simp
  from guardar_flujos_state [OF run] a
  show "records_since_last_analysis s' = int (length xs)" by simp
  from guardar_flujos_state [OF run] a
  show "necesita_analisis s' = (5 \<le> length xs)"
    by (auto simp: necesita_analisis_def)
next
  fix L now analisis s i s'
  assume a: "guardar_analisis_tendencia L now analisis s = Inr (i, s')"
  from guardar_analisis_tendencia_resets [OF a]
  show "records_since_last_analysis s' = 0" by simp
  from guardar_analisis_tendencia_resets [OF a]
  show "\<not> necesita_analisis s'" by (simp add: necesita_analisis_def)
qed

subsection \<open>Too few readings\<close>

lemma length_insert_desc: "length (insert_desc key x xs) = Suc (length xs)"
  by (induction xs) auto

lemma length_foldl_insert_desc:
  "length (foldl (\<lambda>acc x. insert_desc key x acc) acc rows) = length acc + length rows"
  by (induction rows arbitrary: acc) (auto simp: length_insert_desc)

lemma length_order_by_desc: "length (order_by_desc key rows) = length rows"
  by (simp add: order_by_desc_def length_foldl_insert_desc)

lemma length_obtener_historial:
  "0 \<le> limite \<Longrightarrow> length (obtener_historial s limite 0) = min (nat limite) (length (flujo_registros s))"
  by (simp add: obtener_historial_def sql_limit_def length_order_by_desc)

text \<open>
  Claim C7. With fewer than five stored readings the analysis task returns nothing and
  leaves the whole state as it was: no trend record is added, and the counter and the
  pending flag keep their values.
\<close>

theorem analysis_aborts_without_data:
  "length (flujo_registros s) < 5 \<Longrightarrow> analizar_datos_flujo L client now s = Inr (None, s)"
  by (simp add: analizar_datos_flujo_def Let_def length_obtener_historial)

subsection \<open>Locating the candidate\<close>

lemma find_from_first:
  "c \<notin> set pre \<Longrightarrow> find_from c i (pre @ c # rest) = i + int (length pre)"
  by (induction pre arbitrary: i) auto

lemma find_from_absent: "c \<notin> set s \<Longrightarrow> find_from c i s = -1"
  by (induction s arbitrary: i) auto

lemma py_slice_prefix: "py_slice t 0 500 = take 500 t"
  by (simp add: py_slice_def slice_bound_def Let_def min_def)

lemma py_slice_middle:
  "py_slice (pre @ xs @ post) (int (length pre)) (int (length pre) + int (length xs)) = xs"
proof -
  have "nat (int (length pre) + int (length xs)) = length pre + length xs"
    by simp
  then show ?thesis
    by (simp add: py_slice_def slice_bound_def Let_def)
qed

lemma json_candidate_Some:
  assumes "lbrace \<notin> set pre" and "rbrace \<notin> set post"
  shows "json_candidate (pre @ lbrace # mid @ rbrace # post) = Some (lbrace # mid @ [rbrace])"
proof -
  let ?s = "pre @ lbrace # mid @ rbrace # post"
  have start: "py_find ?s lbrace = int (length pre)"
    using assms(1) by (simp add: py_find_def find_from_first)
  have "rev ?s = rev post @ rbrace # (rev mid @ lbrace # rev pre)"
    by simp
  then have "find_from rbrace 0 (rev ?s) = int (length post)"
    using assms(2) find_from_first [of rbrace "rev post" 0] by simp
  then have last: "py_rfind ?s rbrace = int (length pre) + int (length mid) + 1"
    by (simp add: py_rfind_def Let_def)
  have "py_slice (pre @ (lbrace # mid @ [rbrace]) @ post) (int (length pre))
          (int (length pre) + int (length (lbrace # mid @ [rbrace]))) = lbrace # mid @ [rbrace]"
    by (rule py_slice_middle)
  then have "py_slice ?s (int (length pre)) (int (length pre) + int (length mid) + 1 + 1)
               = lbrace # mid @ [rbrace]"
    by (simp add: add.commute add.left_commute)
  then show ?thesis
    by (simp add: json_candidate_def start last Let_def)
qed

lemma braces_differ: "lbrace \<noteq> rbrace"
  by (simp add: lbrace_def rbrace_def)

lemma json_candidate_pair:
  assumes "json_candidate s = Some c"
  shows "\<exists>pre mid post. s = pre @ lbrace # mid @ rbrace # post \<and>
           lbrace \<notin> set pre \<and> rbrace \<notin> set post \<and> c = lbrace # mid @ [rbrace]"
proof -
  have inl: "lbrace \<in> set s"
  proof (rule ccontr)
    assume "lbrace \<notin> set s"
    then have "py_find s lbrace = -1" by (simp add: py_find_def find_from_absent)
    with assms show False by (simp add: json_candidate_def Let_def)
  qed
  then obtain pre rest where s1: "s = pre @ lbrace # rest" and pre: "lbrace \<notin> set pre"
    using split_list_first by fastforce
  have start: "py_find s lbrace = int (length pre)"
    using pre s1 by (simp add: py_find_def find_from_first)
  have inr: "rbrace \<in> set s"
  proof (rule ccontr)
    assume "rbrace \<notin> set s"
    then have "py_rfind s rbrace = -1" by (simp add: py_rfind_def find_from_absent)
    with assms start show False by (simp add: json_candidate_def Let_def)
  qed
  then obtain a post where s2: "s = a @ rbrace # post" and post: "rbrace \<notin> set post"
    using split_list_last by fastforce
  have "rev s = rev post @ rbrace # rev a" using s2 by simp
  then have "find_from rbrace 0 (rev s) = int (length post)"
    using post find_from_first [of rbrace "rev post" 0 "rev a"] by simp
  then have last: "py_rfind s rbrace = int (length a)"
    using s2 by (simp add: py_rfind_def Let_def)
  from assms start last have le: "length pre \<le> length a"
    by (simp add: json_candidate_def Let_def split: if_splits)
  have ne: "length pre \<noteq> length a"
  proof
    assume "length pre = length a"
    with s1 s2 have "lbrace = rbrace" by (metis append_eq_append_conv list.inject)
    with braces_differ show False by simp
  qed
  from le ne have lt: "length pre < length a" by simp
  from s1 s2 have eq: "pre @ lbrace # rest = a @ rbrace # post" by simp
  from eq lt obtain us where a: "a = pre @ us" and r: "lbrace # rest = us @ rbrace # post"
    by (auto simp: append_eq_append_conv2)
  from a lt have "us \<noteq> []" by auto
  with r obtain mid where us: "us = lbrace # mid"
    by (cases us) auto
  with r have rest: "rest = mid @ rbrace # post" by simp
  have s3: "s = pre @ lbrace # mid @ rbrace # post" using s1 rest by simp
  from json_candidate_Some [OF pre post, of mid] assms s3
  have "c = lbrace # mid @ [rbrace]" by simp
  with s3 pre post show ?thesis by blast
qed

lemma json_candidate_None:
  "\<not> (\<exists>pre mid post. s = pre @ lbrace # mid @ rbrace # post) \<Longrightarrow> json_candidate s = None"
  using json_candidate_pair [of s] by (cases "json_candidate s") auto

subsection \<open>Runs of the trigger state and of the analysis task\<close>

lemma trigger_state_machine_run:
  "(\<exists>s4. guardar_flujos (take 4 lecturas5) new_db_manager = Inr s4 \<and>
          records_since_last_analysis s4 = 4 \<and> \<not> necesita_analisis s4) \<and>
   (\<exists>s5. guardar_flujos lecturas5 new_db_manager = Inr s5 \<and>
          records_since_last_analysis s5 = 5 \<and> necesita_analisis s5 \<and>
          (\<exists>r s6. guardar_flujo (Finite 14) None (str ''2024-05-01T10:02:30.000001'') s5 =
                    Inr (r, s6) \<and>
                  records_since_last_analysis s6 = 6 \<and> necesita_analisis s6)) \<and>
   (\<exists>i s'. guardar_analisis_tendencia ref_lib (str ''2024-05-01T10:02:05.000001'')
              (error_analysis (Exn OtherException (str ''sin servicio''))) pending_db =
              Inr (i, s') \<and>
            records_since_last_analysis s' = 0 \<and> \<not> necesita_analisis s')"
proof -
  have reset: "records_since_last_analysis new_db_manager = 0 \<and>
               \<not> pending_analysis new_db_manager \<and> analysis_threshold new_db_manager = 5"
    by (simp add: new_db_manager_def)
  have ok5: "list_all (\<lambda>(flujo, now). flujo \<noteq> NaN \<and> \<not> has_surrogate now) lecturas5"
    by code_simp
  have ok4: "list_all (\<lambda>(flujo, now). flujo \<noteq> NaN \<and> \<not> has_surrogate now) (take 4 lecturas5)"
    by code_simp
  have l4: "length (take 4 lecturas5) = 4" and l5: "length lecturas5 = 5"
    by (simp_all add: lecturas5_def)
  from guardar_flujos_returns [OF ok4] obtain s4 where
    r4: "guardar_flujos (take 4 lecturas5) new_db_manager = Inr s4" by blast
  from guardar_flujos_returns [OF ok5] obtain s5 where
    r5: "guardar_flujos lecturas5 new_db_manager = Inr s5" by blast
  note steps = trigger_state_machine [THEN conjunct1, rule_format]
  note runs = trigger_state_machine [THEN conjunct2, THEN conjunct1, rule_format]
  note resets = trigger_state_machine [THEN conjunct2, THEN conjunct2, rule_format]
  from runs [of new_db_manager "take 4 lecturas5" s4] reset r4 l4
  have p4: "records_since_last_analysis s4 = 4 \<and> \<not> necesita_analisis s4"
    by simp
  from runs [of new_db_manager lecturas5 s5] reset r5 l5
  have p5: "records_since_last_analysis s5 = 5 \<and> necesita_analisis s5"
    by simp
  have "\<not> has_surrogate (str ''2024-05-01T10:02:30.000001'')" by code_simp
  from guardar_flujo_returns [OF _ this, of "Finite 14" s5] obtain r s6 where
    r6: "guardar_flujo (Finite 14) None (str ''2024-05-01T10:02:30.000001'') s5 = Inr (r, s6)"
    by auto
  from steps [OF r6] p5
  have p6: "records_since_last_analysis s6 = 6 \<and> necesita_analisis s6" by simp
  have "\<not> isl (guardar_analisis_tendencia ref_lib (str ''2024-05-01T10:02:05.000001'')
              (error_analysis (Exn OtherException (str ''sin servicio''))) pending_db)"
    by code_simp
  then obtain i s' where
    r7: "guardar_analisis_tendencia ref_lib (str ''2024-05-01T10:02:05.000001'')
           (error_analysis (Exn OtherException (str ''sin servicio''))) pending_db = Inr (i, s')"
    by (metis isl_def prod.exhaust_sel sum.exhaust_sel)
  from resets [OF r7]
  have p7: "records_since_last_analysis s' = 0 \<and> \<not> necesita_analisis s'" by simp
  from r4 p4 r5 p5 r6 p6 r7 p7 show ?thesis by blast
qed

theorem analysis_aborts_without_data_witness:
  "length (flujo_registros pending_db) < 5 \<and>
   analizar_datos_flujo ref_lib (Some (answers (str ''{}''))) (str ''2024-05-01T10:02:05.000001'')
     pending_db = Inr (None, pending_db) \<and>
   necesita_analisis pending_db \<and> records_since_last_analysis pending_db = 7"
proof -
  have few: "length (flujo_registros pending_db) < 5"
    by (simp add: pending_db_def)
  from analysis_aborts_without_data [OF few] few show ?thesis
    by (simp add: pending_db_def necesita_analisis_def)
qed

subsection \<open>What the interpreter returns\<close>

lemma create_fallback_analysis_result:
  "create_fallback_analysis (Some t) = Inr (fallback_result t)"
  by (simp add: create_fallback_analysis_def fallback_result_def py_slice_prefix)

lemma interpret_no_pair:
  "json_candidate (strip t) = None \<Longrightarrow>
     interpret_response L (Some t) = Inr (fallback_result (strip t))"
  by (simp add: interpret_response_def parse_response_def Let_def create_fallback_analysis_result)

lemma interpret_unparseable:
  "json_candidate (strip t) = Some c \<Longrightarrow> json_loads L c = Inl e \<Longrightarrow>
     interpret_response L (Some t) = Inr (fallback_result t)"
  by (simp add: interpret_response_def parse_response_def Let_def bind_exn_def
        create_fallback_analysis_result)

lemma interpret_parsed:
  "json_candidate (strip t) = Some c \<Longrightarrow> json_loads L c = Inr (PDict r) \<Longrightarrow>
   py_float L (dict_get r k_probabilidad_fuga (PInt 0)) = Inr p \<Longrightarrow>
     interpret_response L (Some t) =
       Inr [(k_tendencia, dict_get r k_tendencia (PStr (str ''desconocida''))),
            (k_probabilidad_fuga, PFloat p),
            (k_recomendacion,
               dict_get r k_recomendacion (PStr (str ''No hay recomendaciones disponibles''))),
            (k_detalles, dict_get r k_detalles (PDict []))]"
  by (simp add: interpret_response_def parse_response_def Let_def bind_exn_def format_result_def)

lemma interpret_rejected_probability:
  "json_candidate (strip t) = Some c \<Longrightarrow> json_loads L c = Inr (PDict r) \<Longrightarrow>
   py_float L (dict_get r k_probabilidad_fuga (PInt 0)) = Inl e \<Longrightarrow>
     interpret_response L (Some t) = Inr (fallback_result t)"
  by (simp add: interpret_response_def parse_response_def Let_def bind_exn_def format_result_def
        create_fallback_analysis_result)

lemma interpret_not_a_dict:
  "json_candidate (strip t) = Some c \<Longrightarrow> json_loads L c = Inr v \<Longrightarrow>
   \<forall>r. v \<noteq> PDict r \<Longrightarrow>
     interpret_response L (Some t) = Inr (fallback_result t)"
  by (cases v)
     (simp_all add: interpret_response_def parse_response_def Let_def bind_exn_def
        format_result_def create_fallback_analysis_result)

lemma probability_of_four:
  "dict_get [(k_tendencia, a), (k_probabilidad_fuga, b), (k_recomendacion, c), (k_detalles, d)]
     k_probabilidad_fuga dflt = b"
  using keys_distinct by (simp add: dict_get_def)

lemma probability_of_fallback:
  "dict_get (fallback_result x) k_probabilidad_fuga dflt = PInt 0"
  by (simp add: fallback_result_def probability_of_four)

text \<open>
  Claim C2, as amended. The \<open>probabilidad_fuga\<close> of an interpreted result is never
  clamped. When the candidate parses to an object and \<open>float()\<close> accepts its
  \<open>probabilidad_fuga\<close> (the \<open>int\<close> 0 when the key is missing), the result holds exactly
  that float, whatever its size; in every other case the result is a fallback and holds
  the \<open>int\<close> 0.
\<close>

theorem leak_probability_unclamped:
  assumes "interpret_response L (Some t) = Inr d"
  shows "(\<forall>c r p. json_candidate (strip t) = Some c \<and> json_loads L c = Inr (PDict r) \<and>
             py_float L (dict_get r k_probabilidad_fuga (PInt 0)) = Inr p \<longrightarrow>
             dict_get d k_probabilidad_fuga PNone = PFloat p) \<and>
         ((\<forall>c r p. \<not> (json_candidate (strip t) = Some c \<and> json_loads L c = Inr (PDict r) \<and>
                       py_float L (dict_get r k_probabilidad_fuga (PInt 0)) = Inr p)) \<longrightarrow>
             dict_get d k_probabilidad_fuga PNone = PInt 0)"
proof (intro conjI allI impI)
  fix c r p
  assume "json_candidate (strip t) = Some c \<and> json_loads L c = Inr (PDict r) \<and>
          py_float L (dict_get r k_probabilidad_fuga (PInt 0)) = Inr p"
  then have "interpret_response L (Some t) =
       Inr [(k_tendencia, dict_get r k_tendencia (PStr (str ''desconocida''))),
            (k_probabilidad_fuga, PFloat p),
            (k_recomendacion,
               dict_get r k_recomendacion (PStr (str ''No hay recomendaciones disponibles''))),
            (k_detalles, dict_get r k_detalles (PDict []))]"
    using interpret_parsed by blast
  with assms have "d = [(k_tendencia, dict_get r k_tendencia (PStr (str ''desconocida''))),
            (k_probabilidad_fuga, PFloat p),
            (k_recomendacion,
               dict_get r k_recomendacion (PStr (str ''No hay recomendaciones disponibles''))),
            (k_detalles, dict_get r k_detalles (PDict []))]"
    by simp
  then show "dict_get d k_probabilidad_fuga PNone = PFloat p"
    by (simp only: probability_of_four)
next
  assume none: "\<forall>c r p. \<not> (json_candidate (strip t) = Some c \<and> json_loads L c = Inr (PDict r) \<and>
                       py_float L (dict_get r k_probabilidad_fuga (PInt 0)) = Inr p)"
  have "\<exists>x. interpret_response L (Some t) = Inr (fallback_result x)"
  proof (cases "json_candidate (strip t)")
    case None
    then show ?thesis using interpret_no_pair by blast
  next
    case (Some c)
    show ?thesis
    proof (cases "json_loads L c")
      case (Inl e)
      with Some show ?thesis using interpret_unparseable by blast
    next
      case (Inr v)
      show ?thesis
      proof (cases "\<exists>r. v = PDict r")
        case True
        then obtain r where v: "v = PDict r" by blast
        show ?thesis
        proof (cases "py_float L (dict_get r k_probabilidad_fuga (PInt 0))")
          case (Inl e)
          with Some Inr v show ?thesis using interpret_rejected_probability by blast
        next
          case (Inr p)
          with Some \<open>json_loads L c = Inr v\<close> v none show ?thesis by blast
        qed
      next
        case False
        with Some Inr show ?thesis using interpret_not_a_dict by blast
      qed
    qed
  qed
  with assms show "dict_get d k_probabilidad_fuga PNone = PInt 0"
    by (auto simp: probability_of_fallback)
qed

text \<open>
  Claim C3, as amended. When the trimmed text is some noise without \<open>{\<close>, then
  \<open>{\<close> ... \<open>}\<close>, then some noise without \<open>}\<close>, the stretch from that first \<open>{\<close> to that
  last \<open>}\<close> is what is parsed; when it parses to an object with the four keys and
  \<open>float()\<close> accepts the value of \<open>probabilidad_fuga\<close>, the result holds exactly the four
  values, the probability as that float.
\<close>

theorem valid_json_is_returned:
  assumes "strip t = pre @ lbrace # mid @ rbrace # post"
    and "lbrace \<notin> set pre" and "rbrace \<notin> set post"
    and "json_loads L (lbrace # mid @ [rbrace]) = Inr (PDict r)"
    and "map_of r k_tendencia = Some tendencia"
    and "map_of r k_probabilidad_fuga = Some probabilidad"
    and "map_of r k_recomendacion = Some recomendacion"
    and "map_of r k_detalles = Some detalles"
    and "py_float L probabilidad = Inr p"
  shows "interpret_response L (Some t) =
           Inr [(k_tendencia, tendencia), (k_probabilidad_fuga, PFloat p),
                (k_recomendacion, recomendacion), (k_detalles, detalles)]"
proof -
  have c: "json_candidate (strip t) = Some (lbrace # mid @ [rbrace])"
    using assms(1-3) by (simp add: json_candidate_Some)
  have "py_float L (dict_get r k_probabilidad_fuga (PInt 0)) = Inr p"
    using assms(6,9) by (simp add: dict_get_def)
  from interpret_parsed [OF c assms(4) this] assms(5-8) show ?thesis
    by (simp add: dict_get_def)
qed

text \<open>
  The two fallback paths. Without a \<open>{\<close> followed later by a \<open>}\<close> (line 113) the
  result is the fallback result over the trimmed text; with such a pair whose stretch
  the \<open>json\<close> module rejects (line 116) it is the fallback result over the original,
  untrimmed text.
\<close>

lemma fallback_for_unusable_text:
  "(\<not> (\<exists>pre mid post. strip t = pre @ lbrace # mid @ rbrace # post) \<longrightarrow>
      interpret_response L (Some t) = Inr (fallback_result (strip t))) \<and>
   (\<forall>pre mid post e.
      strip t = pre @ lbrace # mid @ rbrace # post \<and> lbrace \<notin> set pre \<and> rbrace \<notin> set post \<and>
      json_loads L (lbrace # mid @ [rbrace]) = Inl e \<longrightarrow>
      interpret_response L (Some t) = Inr (fallback_result t))"
proof (intro conjI allI impI)
  assume "\<not> (\<exists>pre mid post. strip t = pre @ lbrace # mid @ rbrace # post)"
  then have "json_candidate (strip t) = None" by (rule json_candidate_None)
  then show "interpret_response L (Some t) = Inr (fallback_result (strip t))"
    by (rule interpret_no_pair)
next
  fix pre mid post e
  assume a: "strip t = pre @ lbrace # mid @ rbrace # post \<and> lbrace \<notin> set pre \<and>
             rbrace \<notin> set post \<and> json_loads L (lbrace # mid @ [rbrace]) = Inl e"
  then have "json_candidate (strip t) = Some (lbrace # mid @ [rbrace])"
    by (simp add: json_candidate_Some)
  with a show "interpret_response L (Some t) = Inr (fallback_result t)"
    using interpret_unparseable by blast
qed

text \<open>
  Claim C5, as amended. When the candidate parses to an object, each missing key takes
  its own default (\<open>desconocida\<close>, \<open>float(0)\<close>, the generic recommendation, the empty
  mapping) and each present value is returned as parsed, whatever its type, the
  probability through \<open>float()\<close>; when \<open>float()\<close> rejects the probability the whole
  result is the fallback result over the original text, and nothing is raised.
\<close>

theorem parsed_fields_and_defaults:
  assumes "json_candidate (strip t) = Some c" and "json_loads L c = Inr (PDict r)"
  shows "(\<forall>p. py_float L (dict_get r k_probabilidad_fuga (PInt 0)) = Inr p \<longrightarrow>
            interpret_response L (Some t) =
              Inr [(k_tendencia, dict_get r k_tendencia (PStr (str ''desconocida''))),
                   (k_probabilidad_fuga, PFloat p),
                   (k_recomendacion,
                      dict_get r k_recomendacion (PStr (str ''No hay recomendaciones disponibles''))),
                   (k_detalles, dict_get r k_detalles (PDict []))]) \<and>
         (\<forall>e. py_float L (dict_get r k_probabilidad_fuga (PInt 0)) = Inl e \<longrightarrow>
            interpret_response L (Some t) = Inr (fallback_result t))"
  using interpret_parsed [OF assms] interpret_rejected_probability [OF assms] by blast

subsection \<open>Runs of the interpreter\<close>

theorem leak_probability_counterexample:
  \<open>interpret_response ref_lib (Some (str ''{"probabilidad_fuga": 150}'')) =
     Inr [(k_tendencia, PStr (str ''desconocida'')),
          (k_probabilidad_fuga, PFloat (Finite 150)),
          (k_recomendacion, PStr (str ''No hay recomendaciones disponibles'')),
          (k_detalles, PDict [])] \<and>
   \<not> probability_in_range (PFloat (Finite 150))\<close>
proof
  show \<open>interpret_response ref_lib (Some (str ''{"probabilidad_fuga": 150}'')) =
     Inr [(k_tendencia, PStr (str ''desconocida'')),
          (k_probabilidad_fuga, PFloat (Finite 150)),
          (k_recomendacion, PStr (str ''No hay recomendaciones disponibles'')),
          (k_detalles, PDict [])]\<close>
    by code_simp
  show "\<not> probability_in_range (PFloat (Finite 150))"
    by (simp add: probability_in_range_def)
qed

theorem leak_probability_unclamped_witness:
  \<open>\<exists>d. interpret_response ref_lib
           (Some (str ''{"tendencia": "creciente", "probabilidad_fuga": 250.5}'')) = Inr d \<and>
        dict_get d k_probabilidad_fuga PNone = PFloat (Finite (501 / 2))\<close>
proof -
  let ?t = \<open>str ''{"tendencia": "creciente", "probabilidad_fuga": 250.5}''\<close>
  let ?r = "[(k_tendencia, PStr (str ''creciente'')), (k_probabilidad_fuga, PFloat (Finite (501 / 2)))]"
  obtain d where d: "interpret_response ref_lib (Some ?t) = Inr d"
    using interpret_response_returns by blast
  have c: "json_candidate (strip ?t) = Some ?t" by code_simp
  have l: "json_loads ref_lib ?t = Inr (PDict ?r)" by code_simp
  have f: "py_float ref_lib (dict_get ?r k_probabilidad_fuga (PInt 0)) = Inr (Finite (501 / 2))"
    by code_simp
  from leak_probability_unclamped [OF d] c l f
  have "dict_get d k_probabilidad_fuga PNone = PFloat (Finite (501 / 2))" by blast
  with d show ?thesis by blast
qed

theorem valid_json_counterexample:
  \<open>json_loads ref_lib
     (str ''{"tendencia":"estable","probabilidad_fuga":"alta","recomendacion":"ok","detalles":{}}'') =
     Inr (PDict [(k_tendencia, PStr (str ''estable'')),
                 (k_probabilidad_fuga, PStr (str ''alta'')),
                 (k_recomendacion, PStr (str ''ok'')),
                 (k_detalles, PDict [])]) \<and>
   interpret_response ref_lib (Some
     (str ''{"tendencia":"estable","probabilidad_fuga":"alta","recomendacion":"ok","detalles":{}}'')) =
     Inr (fallback_result
     (str ''{"tendencia":"estable","probabilidad_fuga":"alta","recomendacion":"ok","detalles":{}}'')) \<and>
   dict_get (fallback_result
     (str ''{"tendencia":"estable","probabilidad_fuga":"alta","recomendacion":"ok","detalles":{}}''))
     k_tendencia PNone \<noteq> PStr (str ''estable'')\<close>
  by (intro conjI) code_simp+

theorem valid_json_is_returned_witness:
  \<open>interpret_response ref_lib (Some
     (str ''ruido ruido {"tendencia":"estable","probabilidad_fuga":12.5,"recomendacion":"ok","detalles":{}} final'')) =
     Inr [(k_tendencia, PStr (str ''estable'')),
          (k_probabilidad_fuga, PFloat (Finite (25 / 2))),
          (k_recomendacion, PStr (str ''ok'')),
          (k_detalles, PDict [])]\<close>
proof -
  let ?t = \<open>str ''ruido ruido {"tendencia":"estable","probabilidad_fuga":12.5,"recomendacion":"ok","detalles":{}} final''\<close>
  let ?pre = \<open>str ''ruido ruido ''\<close>
  let ?mid = \<open>str ''"tendencia":"estable","probabilidad_fuga":12.5,"recomendacion":"ok","detalles":{}''\<close>
  let ?post = \<open>str '' final''\<close>
  let ?r = "[(k_tendencia, PStr (str ''estable'')),
             (k_probabilidad_fuga, PFloat (Finite (25 / 2))),
             (k_recomendacion, PStr (str ''ok'')),
             (k_detalles, PDict [])]"
  have s: "strip ?t = ?pre @ lbrace # ?mid @ rbrace # ?post" by code_simp
  have a: "lbrace \<notin> set ?pre" by code_simp
  have b: "rbrace \<notin> set ?post" by code_simp
  have l: "json_loads ref_lib (lbrace # ?mid @ [rbrace]) = Inr (PDict ?r)" by code_simp
  have k1: "map_of ?r k_tendencia = Some (PStr (str ''estable''))" by code_simp
  have k2: "map_of ?r k_probabilidad_fuga = Some (PFloat (Finite (25 / 2)))" by code_simp
  have k3: "map_of ?r k_recomendacion = Some (PStr (str ''ok''))" by code_simp
  have k4: "map_of ?r k_detalles = Some (PDict [])" by code_simp
  have f: "py_float ref_lib (PFloat (Finite (25 / 2))) = Inr (Finite (25 / 2))"
    by (simp add: py_float_def)
  from valid_json_is_returned [OF s a b l k1 k2 k3 k4 f] show ?thesis .
qed

text \<open>
  Claim C4, on the text \<open>sin datos\<close> after two blanks. It has no \<open>{\<close>, and the result
  is the fallback result, but its \<open>respuesta_original\<close> holds \<open>sin datos...\<close>: the
  first characters of the trimmed text, not of the original one, whose first 500
  characters begin with the two blanks. The other fallback path, taken for a candidate
  that does not parse, keeps the blanks of the original text.
\<close>

theorem fallback_text_is_trimmed:
  \<open>lbrace \<notin> set (str ''  sin datos'') \<and>
   interpret_response ref_lib (Some (str ''  sin datos'')) =
     Inr [(k_tendencia, PStr analisis_incompleto),
          (k_probabilidad_fuga, PInt 0),
          (k_recomendacion, PStr (str ''Se recomienda revisar manualmente los datos'')),
          (k_detalles, PDict [(k_respuesta_original, PStr (str ''sin datos...''))])] \<and>
   take 500 (str ''  sin datos'') @ str ''...'' = str ''  sin datos...'' \<and>
   str ''  sin datos...'' \<noteq> str ''sin datos...'' \<and>
   interpret_response ref_lib (Some (str ''  {no es json}'')) =
     Inr [(k_tendencia, PStr analisis_incompleto),
          (k_probabilidad_fuga, PInt 0),
          (k_recomendacion, PStr (str ''Se recomienda revisar manualmente los datos'')),
          (k_detalles, PDict [(k_respuesta_original, PStr (str ''  {no es json}...''))])]\<close>
  by (intro conjI) code_simp+

lemma fallback_for_unusable_text_run:
  \<open>interpret_response ref_lib (Some (str ''I cannot comply'')) =
     Inr (fallback_result (str ''I cannot comply'')) \<and>
   interpret_response ref_lib (Some (str '' {no es json} '')) =
     Inr (fallback_result (str '' {no es json} ''))\<close>
proof
  have "lbrace \<notin> set (strip (str ''I cannot comply''))" by code_simp
  then have "\<not> (\<exists>pre mid post. strip (str ''I cannot comply'') = pre @ lbrace # mid @ rbrace # post)"
    by auto
  moreover have "strip (str ''I cannot comply'') = str ''I cannot comply''" by code_simp
  ultimately show "interpret_response ref_lib (Some (str ''I cannot comply'')) =
     Inr (fallback_result (str ''I cannot comply''))"
    using fallback_for_unusable_text [of "str ''I cannot comply''" ref_lib] by simp
next
  have s: "strip (str '' {no es json} '') = [] @ lbrace # str ''no es json'' @ rbrace # []"
    by code_simp
  have "isl (json_loads ref_lib (lbrace # str ''no es json'' @ [rbrace]))" by code_simp
  then obtain e where l: "json_loads ref_lib (lbrace # str ''no es json'' @ [rbrace]) = Inl e"
    by (auto simp: isl_def)
  from fallback_for_unusable_text [of "str '' {no es json} ''" ref_lib, THEN conjunct2, rule_format,
        of "[]" "str ''no es json''" "[]" e] s l
  show "interpret_response ref_lib (Some (str '' {no es json} '')) =
     Inr (fallback_result (str '' {no es json} ''))"
    by simp
qed

theorem parsed_fields_counterexample:
  \<open>json_loads ref_lib (str ''{"tendencia":"estable","probabilidad_fuga":"alta"}'') =
     Inr (PDict [(k_tendencia, PStr (str ''estable'')),
                 (k_probabilidad_fuga, PStr (str ''alta''))]) \<and>
   interpret_response ref_lib (Some (str ''{"tendencia":"estable","probabilidad_fuga":"alta"}'')) =
     Inr [(k_tendencia, PStr analisis_incompleto),
          (k_probabilidad_fuga, PInt 0),
          (k_recomendacion, PStr (str ''Se recomienda revisar manualmente los datos'')),
          (k_detalles,
             PDict [(k_respuesta_original,
                     PStr (str ''{"tendencia":"estable","probabilidad_fuga":"alta"}...''))])] \<and>
   PStr analisis_incompleto \<noteq> PStr (str ''estable'')\<close>
  by (intro conjI) code_simp+

theorem parsed_fields_and_defaults_witness:
  \<open>interpret_response ref_lib (Some (str ''{"tendencia": "creciente"}'')) =
     Inr [(k_tendencia, PStr (str ''creciente'')),
          (k_probabilidad_fuga, PFloat (Finite 0)),
          (k_recomendacion, PStr (str ''No hay recomendaciones disponibles'')),
          (k_detalles, PDict [])]\<close>
proof -
  let ?t = \<open>str ''{"tendencia": "creciente"}''\<close>
  let ?r = "[(k_tendencia, PStr (str ''creciente''))]"
  have c: "json_candidate (strip ?t) = Some ?t" by code_simp
  have l: "json_loads ref_lib ?t = Inr (PDict ?r)" by code_simp
  have f: "py_float ref_lib (dict_get ?r k_probabilidad_fuga (PInt 0)) = Inr (Finite 0)"
    by code_simp
  have g: "dict_get ?r k_tendencia (PStr (str ''desconocida'')) = PStr (str ''creciente'')"
          "dict_get ?r k_recomendacion (PStr (str ''No hay recomendaciones disponibles'')) =
             PStr (str ''No hay recomendaciones disponibles'')"
          "dict_get ?r k_detalles (PDict []) = PDict []"
    by code_simp+
  from parsed_fields_and_defaults [OF c l, THEN conjunct1, rule_format, OF f] g
  show ?thesis by simp
qed

subsection \<open>Saving a trend and reading the latest back\<close>

lemma insert_desc_newest:
  "\<forall>y \<in> set ys. str_lt (key y) (key x) \<Longrightarrow> insert_desc key x ys = x # ys"
  by (cases ys) auto

lemma set_insert_desc: "set (insert_desc key x ys) = insert x (set ys)"
  by (induction ys) auto

lemma set_foldl_insert_desc:
  "set (foldl (\<lambda>acc x. insert_desc key x acc) acc rows) = set acc \<union> set rows"
  by (induction rows arbitrary: acc) (auto simp: set_insert_desc)

lemma order_by_desc_newest:
  assumes "\<forall>y \<in> set rows. str_lt (key y) (key x)"
  shows "order_by_desc key (rows @ [x]) = x # order_by_desc key rows"
proof -
  have "set (order_by_desc key rows) = set rows"
    by (simp add: order_by_desc_def set_foldl_insert_desc)
  with assms have "\<forall>y \<in> set (order_by_desc key rows). str_lt (key y) (key x)" by simp
  then have "insert_desc key x (order_by_desc key rows) = x # order_by_desc key rows"
    by (rule insert_desc_newest)
  then show ?thesis by (simp add: order_by_desc_def)
qed

lemma guardar_analisis_tendencia_row:
  assumes "guardar_analisis_tendencia L now analisis s = Inr (i, s')"
    and "json_dumps L (dict_get analisis k_detalles (PDict [])) = Inr txt"
  shows "\<exists>row. tendencias s' = tendencias s @ [row] \<and> t_fecha row = now \<and>
               t_detalles row = SText txt"
  using assms
  by (auto simp: guardar_analisis_tendencia_def bind_exn_def Let_def sqlite_bind_def
        text_affinity_def split: sum.splits if_splits)

lemma detalles_of_tendencia_dict:
  "tendencia_dict L row = Inr d \<Longrightarrow> decode_detalles L (t_detalles row) = Inr v \<Longrightarrow>
     dict_get d k_detalles dflt = v"
  using keys_distinct
  by (auto simp: tendencia_dict_def bind_exn_def dict_get_def k_detalles_def k_periodo_def
        k_tendencia_def k_recomendacion_def k_probabilidad_fuga_def str_def)

text \<open>
  Claim C8, as amended. When \<open>guardar_analisis_tendencia\<close> has saved an analysis whose
  \<open>detalles\<close> the \<open>json\<close> module writes as a non-empty text and reads back as the same
  value, and the clock reading of the save sorts after the \<open>fecha\<close> of every stored
  trend, then \<open>obtener_ultimas_tendencias(1)\<close> returns one record, whose \<open>detalles\<close> is
  the value saved. A stored \<open>detalles\<close> that is NULL or the empty text is read back as
  the empty mapping.
\<close>

theorem details_round_trip:
  assumes "guardar_analisis_tendencia L now analisis s = Inr (i, s')"
    and "map_of analisis k_detalles = Some detalles"
    and "json_dumps L detalles = Inr txt" and "txt \<noteq> []"
    and "json_loads L txt = Inr detalles"
    and "\<forall>row \<in> set (tendencias s). str_lt (t_fecha row) now"
  shows "(\<exists>d. obtener_ultimas_tendencias L s' 1 = Inr [d] \<and>
              dict_get d k_detalles PNone = detalles) \<and>
         (\<forall>row. t_detalles row = SNull \<or> t_detalles row = SText [] \<longrightarrow>
              (\<exists>d. tendencia_dict L row = Inr d \<and> dict_get d k_detalles PNone = PDict []))"
proof
  have get: "dict_get analisis k_detalles (PDict []) = detalles"
    using assms(2) by (simp add: dict_get_def)
  from guardar_analisis_tendencia_row [OF assms(1)] get assms(3) obtain row where
    rows: "tendencias s' = tendencias s @ [row]" and fecha: "t_fecha row = now" and
    det: "t_detalles row = SText txt"
    by auto
  have "order_by_desc t_fecha (tendencias s') = row # order_by_desc t_fecha (tendencias s)"
    using rows fecha assms(6) by (simp add: order_by_desc_newest)
  then have top: "sql_limit 1 0 (order_by_desc t_fecha (tendencias s')) = [row]"
    by (simp add: sql_limit_def)
  have dec: "decode_detalles L (t_detalles row) = Inr detalles"
    using det assms(4,5) by (simp add: decode_detalles_def)
  then obtain d where d: "tendencia_dict L row = Inr d"
    by (simp add: tendencia_dict_def bind_exn_def)
  from detalles_of_tendencia_dict [OF d dec] have "dict_get d k_detalles PNone = detalles" .
  moreover have "obtener_ultimas_tendencias L s' 1 = Inr [d]"
    using top d by (simp add: obtener_ultimas_tendencias_def bind_exn_def)
  ultimately show "\<exists>d. obtener_ultimas_tendencias L s' 1 = Inr [d] \<and>
              dict_get d k_detalles PNone = detalles"
    by blast
next
  show "\<forall>row. t_detalles row = SNull \<or> t_detalles row = SText [] \<longrightarrow>
              (\<exists>d. tendencia_dict L row = Inr d \<and> dict_get d k_detalles PNone = PDict [])"
  proof (intro allI impI)
    fix row :: tendencia
    assume "t_detalles row = SNull \<or> t_detalles row = SText []"
    then have dec: "decode_detalles L (t_detalles row) = Inr (PDict [])"
      by (auto simp: decode_detalles_def)
    then obtain d where d: "tendencia_dict L row = Inr d"
      by (simp add: tendencia_dict_def bind_exn_def)
    from detalles_of_tendencia_dict [OF d dec] d
    show "\<exists>d. tendencia_dict L row = Inr d \<and> dict_get d k_detalles PNone = PDict []"
      by blast
  qed
qed

theorem details_round_trip_counterexample:
  \<open>\<not> isl (guardar_analisis_tendencia ref_lib (str ''2024-10-27T02:10:00.000001'')
            analisis_despues db_con_tendencia) \<and>
   map (\<lambda>d. dict_get d k_detalles PNone)
     (projr (obtener_ultimas_tendencias ref_lib
        (snd (projr (guardar_analisis_tendencia ref_lib (str ''2024-10-27T02:10:00.000001'')
                       analisis_despues db_con_tendencia))) 1)) =
     [PDict [(str ''explicacion'', PStr (str ''antes''))]] \<and>
   dict_get analisis_despues k_detalles PNone = PDict [(str ''explicacion'', PStr (str ''despues''))] \<and>
   PDict [(str ''explicacion'', PStr (str ''antes''))] \<noteq>
     PDict [(str ''explicacion'', PStr (str ''despues''))]\<close>
  by (intro conjI) code_simp+

theorem details_round_trip_witness:
  \<open>\<exists>i s' d.
     guardar_analisis_tendencia ref_lib (str ''2024-10-27T03:30:00.000001'') analisis_despues
       db_con_tendencia = Inr (i, s') \<and>
     obtener_ultimas_tendencias ref_lib s' 1 = Inr [d] \<and>
     dict_get d k_detalles PNone = PDict [(str ''explicacion'', PStr (str ''despues''))]\<close>
proof -
  let ?now = "str ''2024-10-27T03:30:00.000001''"
  let ?det = "PDict [(str ''explicacion'', PStr (str ''despues''))]"
  have "\<not> isl (guardar_analisis_tendencia ref_lib ?now analisis_despues db_con_tendencia)"
    by code_simp
  then obtain i s' where
    saved: "guardar_analisis_tendencia ref_lib ?now analisis_despues db_con_tendencia = Inr (i, s')"
    by (metis isl_def prod.exhaust_sel sum.exhaust_sel)
  have det: "map_of analisis_despues k_detalles = Some ?det" by code_simp
  have dumps: \<open>json_dumps ref_lib ?det = Inr (str ''{"explicacion": "despues"}'')\<close> by code_simp
  have ne: \<open>str ''{"explicacion": "despues"}'' \<noteq> []\<close> by code_simp
  have loads: \<open>json_loads ref_lib (str ''{"explicacion": "despues"}'') = Inr ?det\<close> by code_simp
  have newest: "\<forall>row \<in> set (tendencias db_con_tendencia). str_lt (t_fecha row) ?now"
    by code_simp
  from details_round_trip [OF saved det dumps ne loads newest] saved show ?thesis
    by blast
qed

subsection \<open>The service at the end of logic.py\<close>

lemma py_setitem_dict:
  "py_setitem x k v = Inr y \<Longrightarrow> \<exists>d. y = PDict d"
  by (cases x) (auto simp: py_setitem_def)

lemma generate_reasoned_response_v2_dict:
  "\<exists>d. fst (generate_reasoned_response_v2 L rs query num_cycles temperature clock) = PDict d"
  by (cases clock)
     (auto simp: generate_reasoned_response_v2_def bind_exn_def Let_def
        split: sum.splits dest: py_setitem_dict)

lemma re_search_braces_dict: "isl (re_search_braces (PDict d))"
  by (simp add: re_search_braces_def)

lemma guardar_respuesta_v2_dict: "isl (guardar_respuesta_v2 L now n (PDict d) s)"
  by (simp add: guardar_respuesta_v2_def re_search_braces_def bind_exn_def)

lemma analizar_datos_flujo_v2_nothing:
  "fst (analizar_datos_flujo_v2 L now clock ultimos_registros rs s) = None \<and>
   snd (snd (analizar_datos_flujo_v2 L now clock ultimos_registros rs s)) = s"
proof (cases "ultimos_registros = []")
  case True
  then show ?thesis by (simp add: analizar_datos_flujo_v2_def)
next
  case False
  let ?g = "generate_reasoned_response_v2 L rs (crear_query_v2 L ultimos_registros) 2
              (Finite (3152519739159347 / 4503599627370496)) clock"
  obtain resultado rs' where g: "?g = (resultado, rs')" by (cases ?g)
  with generate_reasoned_response_v2_dict [of L rs "crear_query_v2 L ultimos_registros" 2
        "Finite (3152519739159347 / 4503599627370496)" clock]
  obtain d where "resultado = PDict d" by auto
  with guardar_respuesta_v2_dict [of L now "length ultimos_registros" d s]
  obtain e where "guardar_respuesta_v2 L now (length ultimos_registros) resultado s = Inl e"
    by (auto simp: isl_def)
  with False g show ?thesis
    by (simp add: analizar_datos_flujo_v2_def Let_def)
qed

lemma length_obtener_historial_v2:
  "length (obtener_historial_v2 s 48 0) \<le> 48"
  by (simp add: obtener_historial_v2_def sql_limit_def)

text \<open>
  Claim C10. In the service at the end of \<open>logic.py\<close> no trend is ever saved. The
  ingestion endpoint reads at most 48 records and asks for at least 100, so it never
  hands the analysis task over, and it leaves the trend table as it was. The answer of
  \<open>generate_reasoned_response\<close> is always a dict, on which the regular expression
  search raises; so the analysis task, whatever it is given, returns \<open>None\<close> and leaves
  the database as it was.
\<close>

theorem service_variant_never_persists:
  "(\<forall>flujo now s r task s'.
      recibir_flujo_v2 flujo now s = Inr ((r, task), s') \<longrightarrow>
        task = None \<and> v2_tendencias_analisis s' = v2_tendencias_analisis s) \<and>
   (\<forall>L rs query num_cycles temperature clock.
      isl (re_search_braces
             (fst (generate_reasoned_response_v2 L rs query num_cycles temperature clock)))) \<and>
   (\<forall>L now clock ultimos_registros rs s.
      fst (analizar_datos_flujo_v2 L now clock ultimos_registros rs s) = None \<and>
      snd (snd (analizar_datos_flujo_v2 L now clock ultimos_registros rs s)) = s)"
proof (intro conjI allI impI)
  fix flujo now s r task s'
  assume a: "recibir_flujo_v2 flujo now s = Inr ((r, task), s')"
  then obtain s1 where
    g: "guardar_flujo_v2 flujo None now s = Inr (r, s1)" and s': "s' = s1" and
    t: "task = (if length (obtener_historial_v2 s1 48 0) \<ge> 100
                then Some (obtener_historial_v2 s1 48 0) else None)"
    by (auto simp: recibir_flujo_v2_def bind_exn_def Let_def split: sum.splits)
  from t length_obtener_historial_v2 [of s1] show "task = None" by simp
  from g s' show "v2_tendencias_analisis s' = v2_tendencias_analisis s"
    by (auto simp: guardar_flujo_v2_def bind_exn_def Let_def split: sum.splits if_splits)
next
  fix L rs query num_cycles temperature clock
  from generate_reasoned_response_v2_dict [of L rs query num_cycles temperature clock]
  show "isl (re_search_braces
               (fst (generate_reasoned_response_v2 L rs query num_cycles temperature clock)))"
    by (auto simp: re_search_braces_dict)
next
  fix L now clock ultimos_registros rs s
  show "fst (analizar_datos_flujo_v2 L now clock ultimos_registros rs s) = None"
    using analizar_datos_flujo_v2_nothing by blast
  show "snd (snd (analizar_datos_flujo_v2 L now clock ultimos_registros rs s)) = s"
    using analizar_datos_flujo_v2_nothing by blast
qed

theorem service_variant_never_persists_witness:
  "(\<exists>r s'. recibir_flujo_v2 (Finite 10) (str ''2024-05-01T10:00:00.000001'') db_v2_vacia =
              Inr ((r, None), s') \<and> v2_tendencias_analisis s' = []) \<and>
   fst (analizar_datos_flujo_v2 ref_lib (str ''2024-05-01T10:02:05.000001'') reloj registros5
          sistema_estable db_v2_vacia) = None \<and>
   snd (snd (analizar_datos_flujo_v2 ref_lib (str ''2024-05-01T10:02:05.000001'') reloj registros5
          sistema_estable db_v2_vacia)) = db_v2_vacia"
proof -
  have "\<not> isl (recibir_flujo_v2 (Finite 10) (str ''2024-05-01T10:00:00.000001'') db_v2_vacia)"
    by code_simp
  then obtain r task s' where
    a: "recibir_flujo_v2 (Finite 10) (str ''2024-05-01T10:00:00.000001'') db_v2_vacia =
          Inr ((r, task), s')"
    by (metis isl_def prod.exhaust_sel sum.exhaust_sel)
  note T = service_variant_never_persists
  from T [THEN conjunct1, rule_format, OF a]
  have "task = None \<and> v2_tendencias_analisis s' = []"
    by (simp add: db_v2_vacia_def)
  with a have first: "\<exists>r s'. recibir_flujo_v2 (Finite 10) (str ''2024-05-01T10:00:00.000001'')
       db_v2_vacia = Inr ((r, None), s') \<and> v2_tendencias_analisis s' = []"
    by blast
  from T [THEN conjunct2, THEN conjunct2, rule_format,
          of ref_lib "str ''2024-05-01T10:02:05.000001''" reloj registros5 sistema_estable
             db_v2_vacia] first
  show ?thesis by blast
qed

subsection \<open>The listing in the query\<close>

text \<open>
  Claim C9, on five stored readings. The listing of the records has one line for each
  of them, but the query that goes into the prompt holds, under the heading that
  announces the last ten records, the first ten characters of that listing: a part of
  its first line, without any reading. The statistics are there with two decimals.
\<close>

theorem query_listing_is_cut:
  \<open>map_sum id (\<lambda>s. obtener_historial s 50 0) (guardar_flujos lecturas5 new_db_manager) =
     Inr registros5 \<and>
   datos_formateados ref_lib registros5 =
       str ''ID: 5, Flujo: 13.0%, Timestamp: 2024-05-01T10:02:00.000001\<newline>'' @
       str ''ID: 4, Flujo: 11.0%, Timestamp: 2024-05-01T10:01:30.000001\<newline>'' @
       str ''ID: 3, Flujo: 12.5%, Timestamp: 2024-05-01T10:01:00.000001\<newline>'' @
       str ''ID: 2, Flujo: 12.0%, Timestamp: 2024-05-01T10:00:30.000001\<newline>'' @
       str ''ID: 1, Flujo: 10.0%, Timestamp: 2024-05-01T10:00:00.000001'' \<and>
   crear_query ref_lib registros5 =
     Inr (
       str ''\<newline>'' @
       str ''    An'' @
       [225] @
       str ''lisis de datos de flujo de agua:\<newline>'' @
       str ''    \<newline>'' @
       str ''    Estad'' @
       [237] @
       str ''sticas:\<newline>'' @
       str ''    - Promedio: 11.70%\<newline>'' @
       str ''    - M'' @
       [225] @
       str ''ximo: 13.00%\<newline>'' @
       str ''    - M'' @
       [237] @
       str ''nimo: 10.00%\<newline>'' @
       str ''    - Total registros: 5\<newline>'' @
       str ''    \<newline>'' @
       str ''    '' @
       [218] @
       str ''ltimos 10 registros:\<newline>'' @
       str ''    ID: 5, Flu\<newline>'' @
       str ''    '')\<close>
  by (intro conjI) code_simp+

subsection \<open>A save that raises\<close>

text \<open>
  Claim C6, on five readings and an answer whose \<open>tendencia\<close> is \<open>null\<close>. The five
  readings leave the counter at 5 and an analysis pending. The answer is interpreted
  with \<open>tendencia\<close> \<open>None\<close> (the default is for a missing key only), and the analysis
  task then raises in the INSERT of \<open>guardar_analisis_tendencia\<close>, a NULL in a NOT NULL
  column, before the two lines that reset the trigger state: the counter stays at 5 and
  the analysis pending, and the next reading hands the task over again with the counter
  at 6. A failure of the service, in contrast, is turned into the error analysis by the
  handler, which is saved and resets the state.
\<close>

theorem trigger_not_reset_after_failed_save:
  \<open>guardar_flujos lecturas5 new_db_manager = Inr db_cinco \<and>
   records_since_last_analysis db_cinco = 5 \<and> necesita_analisis db_cinco \<and>
   interpret_response ref_lib (Some respuesta_sin_tendencia) =
     Inr [(k_tendencia, PNone),
          (k_probabilidad_fuga, PFloat (Finite 10)),
          (k_recomendacion, PStr (str ''ok'')),
          (k_detalles, PDict [])] \<and>
   analizar_datos_flujo ref_lib (Some (answers respuesta_sin_tendencia))
     (str ''2024-05-01T10:02:05.000001'') db_cinco =
     Inl (Exn SqliteError (str ''NOT NULL constraint failed: tendencias.tendencia'')) \<and>
   map_sum id (\<lambda>((row, programado), s).
                 (programado, records_since_last_analysis s, pending_analysis s))
     (recibir_flujo (Finite 14) (str ''2024-05-01T10:02:30.000001'') db_cinco) =
     Inr (True, 6, True) \<and>
   map_sum id (\<lambda>(resultado, s). (records_since_last_analysis s, pending_analysis s))
     (analizar_datos_flujo ref_lib
        (Some (\<lambda>prompt. Inl (Exn OtherException (str ''sin servicio''))))
        (str ''2024-05-01T10:02:05.000001'') db_cinco) =
     Inr (0, False)\<close>
  by (intro conjI) code_simp+

end
